theory Spec2Isabelle
  imports
    Complex_Main
    "HOL-Library.Char_ord"
    "HOL-Library.List_Lexorder"
    "HOL-Library.Product_Lexorder"
begin

chapter \<open>Wash-trading, bot and holder risk analysis: a shallow embedding\<close>

text \<open>
  The theory embeds the scoring core of the repository: the flow extraction of
  \<^verbatim>\<open>srs/data_fetcher.py\<close>, the detectors of \<^verbatim>\<open>analysis/wash_trading_detector.py\<close>,
  the scorer of \<^verbatim>\<open>analysis/bot_detector.py\<close>, the Gini computation of
  \<^verbatim>\<open>srs/holder_analyzer.py\<close> and the fusion of \<^verbatim>\<open>srs/full_risk_score_analysis.py\<close>.

  Conventions. Python floats are read as exact reals (rounding is not modelled); a float
  that may be NaN is an \<open>option\<close> with \<open>None\<close> for NaN. Wallets, hashes and entity types
  are strings, ordered as Python orders them (by code point, lexicographically). A pandas
  timestamp is an integer number of seconds. A DataFrame is the list of its rows, in row
  order. \<^verbatim>\<open>groupby\<close> visits the distinct keys in ascending order and keeps the row order
  inside a group. \<^verbatim>\<open>sort_values\<close> is modelled by the stable insertion sort \<^const>\<open>sort_key\<close>
  (numpy's default sort is an insertion sort on runs of at most 16 rows, hence stable
  there; on longer runs the order of rows with equal keys is not fixed by pandas).
\<close>

section \<open>Data model\<close>

type_synonym wallet = string

text \<open>An address object of the transfer feed: a JSON object with an optional
  \<^verbatim>\<open>address\<close> and an optional \<^verbatim>\<open>arkhamEntity.type\<close>, or a bare value.\<close>

datatype address_obj =
    Address_dict "string option" "string option"
  | Address_plain "string option"

text \<open>One row of the raw transfer table. \<open>hop_log_index\<close> is the position of the hop
  inside its transaction (the \<^verbatim>\<open>log_index\<close> of the sibling detector's input).\<close>

record transfer_hop =
  hop_transactionHash :: "string option"
  hop_blockNumber :: int
  hop_log_index :: int
  hop_timestamp :: int
  hop_fromAddress :: address_obj
  hop_toAddress :: address_obj
  hop_historicalUSD :: "real option"

text \<open>One row of the flow table (the constant columns \<^verbatim>\<open>token_symbol\<close>,
  \<^verbatim>\<open>token_address\<close> and \<^verbatim>\<open>chain\<close> are left out).\<close>

record user_flow =
  uf_transaction_hash :: string
  uf_start_wallet :: wallet
  uf_end_wallet :: wallet
  uf_start_entity_type :: "string option"
  uf_end_entity_type :: "string option"
  uf_timestamp :: int
  uf_block_number :: int
  uf_usd_value :: real
  uf_hop_count :: nat
  uf_is_self_transfer :: bool

section \<open>Flow extraction (\<^verbatim>\<open>LiveDataFetcher.process_transfers_to_user_flows\<close>)\<close>

definition intermediaries :: "string list" where
  "intermediaries = [''dex'', ''cex'', ''dex_aggregator'', ''bridge'', ''mixer'']"

fun get_entity_type :: "address_obj \<Rightarrow> string option" where
  "get_entity_type (Address_dict a ty) = ty"
| "get_entity_type (Address_plain a) = None"

fun get_address :: "address_obj \<Rightarrow> string option" where
  "get_address (Address_dict a ty) = a"
| "get_address (Address_plain a) = a"

text \<open>\<^verbatim>\<open>Series.isin(intermediaries)\<close>: a missing type is in no list.\<close>

definition is_intermediary :: "string option \<Rightarrow> bool" where
  "is_intermediary ty = (case ty of None \<Rightarrow> False | Some t \<Rightarrow> t \<in> set intermediaries)"

definition from_entity_type :: "transfer_hop \<Rightarrow> string option" where
  "from_entity_type r = get_entity_type (hop_fromAddress r)"

definition to_entity_type :: "transfer_hop \<Rightarrow> string option" where
  "to_entity_type r = get_entity_type (hop_toAddress r)"

definition from_is_intermediary :: "transfer_hop \<Rightarrow> bool" where
  "from_is_intermediary r = is_intermediary (from_entity_type r)"

definition to_is_intermediary :: "transfer_hop \<Rightarrow> bool" where
  "to_is_intermediary r = is_intermediary (to_entity_type r)"

definition from_address :: "transfer_hop \<Rightarrow> string option" where
  "from_address r = get_address (hop_fromAddress r)"

definition to_address :: "transfer_hop \<Rightarrow> string option" where
  "to_address r = get_address (hop_toAddress r)"

text \<open>Python truth of an address: \<^verbatim>\<open>None\<close> and the empty string are false.\<close>

definition truthy :: "string option \<Rightarrow> bool" where
  "truthy a = (case a of None \<Rightarrow> False | Some s \<Rightarrow> s \<noteq> [])"

text \<open>\<^verbatim>\<open>Series.sum()\<close> skips NaN; a missing column sums to 0.\<close>

definition sum_usd :: "transfer_hop list \<Rightarrow> real" where
  "sum_usd rows = sum_list (map (\<lambda>r. case hop_historicalUSD r of None \<Rightarrow> 0 | Some v \<Rightarrow> v) rows)"

text \<open>The forward scan: the first row whose sender is not an intermediary gives
  \<^verbatim>\<open>start_wallet\<close> and \<^verbatim>\<open>start_entity_type\<close>; the scan stops there.\<close>

definition scan_start :: "transfer_hop list \<Rightarrow> string option \<times> string option" where
  "scan_start rows =
     (case List.find (\<lambda>r. \<not> from_is_intermediary r) rows of
        None \<Rightarrow> (None, None)
      | Some r \<Rightarrow> (from_address r, from_entity_type r))"

text \<open>The backward scan over \<^verbatim>\<open>iloc[::-1]\<close>.\<close>

definition scan_end :: "transfer_hop list \<Rightarrow> string option \<times> string option" where
  "scan_end rows =
     (case List.find (\<lambda>r. \<not> to_is_intermediary r) (rev rows) of
        None \<Rightarrow> (None, None)
      | Some r \<Rightarrow> (to_address r, to_entity_type r))"

text \<open>The body of the loop over the transaction groups, on the rows of one group
  already put in order.\<close>

definition flow_of_rows :: "string \<Rightarrow> transfer_hop list \<Rightarrow> user_flow option" where
  "flow_of_rows tx_hash tx_transfers =
     (case tx_transfers of
        [] \<Rightarrow> None
      | r0 # _ \<Rightarrow>
         (let (start_wallet, start_entity_type) = scan_start tx_transfers;
              (end_wallet, end_entity_type) = scan_end tx_transfers
          in if truthy start_wallet \<and> truthy end_wallet then
               Some \<lparr> uf_transaction_hash = tx_hash,
                      uf_start_wallet = the start_wallet,
                      uf_end_wallet = the end_wallet,
                      uf_start_entity_type = start_entity_type,
                      uf_end_entity_type = end_entity_type,
                      uf_timestamp = hop_timestamp r0,
                      uf_block_number = hop_blockNumber r0,
                      uf_usd_value = sum_usd tx_transfers,
                      uf_hop_count = length tx_transfers,
                      uf_is_self_transfer = (start_wallet = end_wallet) \<rparr>
             else None))"

text \<open>The code orders a group with \<^verbatim>\<open>sort_values('blockNumber')\<close>.\<close>

definition group_flow :: "string \<Rightarrow> transfer_hop list \<Rightarrow> user_flow option" where
  "group_flow tx_hash grp = flow_of_rows tx_hash (sort_key hop_blockNumber grp)"

definition tx_hashes :: "transfer_hop list \<Rightarrow> string list" where
  "tx_hashes df = sort (remdups (List.map_filter hop_transactionHash df))"

definition tx_group :: "transfer_hop list \<Rightarrow> string \<Rightarrow> transfer_hop list" where
  "tx_group df h = filter (\<lambda>r. hop_transactionHash r = Some h) df"

definition process_transfers_to_user_flows :: "transfer_hop list \<Rightarrow> user_flow list" where
  "process_transfers_to_user_flows df =
     List.map_filter (\<lambda>h. group_flow h (tx_group df h)) (tx_hashes df)"

text \<open>The order the specification asks for: the hops of a transaction by \<open>log_index\<close>.\<close>

definition spec_group_flow :: "string \<Rightarrow> transfer_hop list \<Rightarrow> user_flow option" where
  "spec_group_flow tx_hash grp = flow_of_rows tx_hash (sort_key hop_log_index grp)"

subsection \<open>Example feeds\<close>

text \<open>A feed the extractor can receive: the two hops of one transaction, \<open>A \<rightarrow> B\<close>
  (log index 0) and \<open>B \<rightarrow> C\<close> (log index 1), in one block, delivered latest hop first.\<close>

definition plain_hop :: "string \<Rightarrow> int \<Rightarrow> int \<Rightarrow> int \<Rightarrow> string \<Rightarrow> string \<Rightarrow> real \<Rightarrow> transfer_hop" where
  "plain_hop h b i t a c v =
     \<lparr> hop_transactionHash = Some h, hop_blockNumber = b, hop_log_index = i, hop_timestamp = t,
       hop_fromAddress = Address_dict (Some a) None, hop_toAddress = Address_dict (Some c) None,
       hop_historicalUSD = Some v \<rparr>"

definition reversed_feed :: "transfer_hop list" where
  "reversed_feed =
     [plain_hop ''tx1'' 100 1 1000 ''B'' ''C'' 5, plain_hop ''tx1'' 100 0 1000 ''A'' ''B'' 5]"

definition ordered_feed :: "transfer_hop list" where
  "ordered_feed =
     [plain_hop ''tx1'' 100 0 1000 ''A'' ''B'' 5, plain_hop ''tx1'' 100 1 1000 ''B'' ''C'' 5]"

definition flow_A_C :: user_flow where
  "flow_A_C =
     \<lparr> uf_transaction_hash = ''tx1'', uf_start_wallet = ''A'', uf_end_wallet = ''C'',
       uf_start_entity_type = None, uf_end_entity_type = None, uf_timestamp = 1000,
       uf_block_number = 100, uf_usd_value = 10, uf_hop_count = 2,
       uf_is_self_transfer = False \<rparr>"

section \<open>Pattern detectors (\<^verbatim>\<open>WashTradingDetector\<close>)\<close>

record self_transfer_row =
  st_wallet :: wallet
  st_transfer_count :: nat
  st_total_volume_usd :: real
  st_avg_volume_usd :: real

record roundtrip_row =
  rt_wallet_a :: wallet
  rt_wallet_b :: wallet
  rt_roundtrip_count :: nat
  rt_total_transactions :: nat

record pair_row =
  hf_wallet_a :: wallet
  hf_wallet_b :: wallet
  hf_transaction_count :: nat

record cycle_row =
  cy_cycle_length :: nat
  cy_wallets :: "wallet list"

record volume_row =
  vc_wallet :: wallet
  vc_total_volume_usd :: real

record cluster_row =
  tc_timestamp :: int
  tc_transaction_count :: nat

text \<open>The dictionary \<^verbatim>\<open>self.results\<close>, one table per analysis, in the order
  \<^verbatim>\<open>run_all_analyses\<close> fills it. Before the run the dictionary is empty, which no
  reader of it tells from six empty tables.\<close>

record wash_results =
  self_transfers :: "self_transfer_row list"
  rapid_roundtrips :: "roundtrip_row list"
  high_frequency_pairs :: "pair_row list"
  circular_patterns :: "cycle_row list"
  volume_concentration :: "volume_row list"
  temporal_clustering :: "cluster_row list"

record wash_detector =
  wd_user_flows :: "user_flow list"
  wd_suspicious_wallets :: "wallet set"
  wd_results :: wash_results

definition empty_results :: wash_results where
  "empty_results =
     \<lparr> self_transfers = [], rapid_roundtrips = [], high_frequency_pairs = [],
       circular_patterns = [], volume_concentration = [], temporal_clustering = [] \<rparr>"

text \<open>\<^verbatim>\<open>WashTradingDetector.__init__\<close>\<close>

definition new_detector :: "user_flow list \<Rightarrow> wash_detector" where
  "new_detector flows =
     \<lparr> wd_user_flows = flows, wd_suspicious_wallets = {}, wd_results = empty_results \<rparr>"

subsection \<open>Self-transfers\<close>

definition self_transfer_summary :: "user_flow list \<Rightarrow> self_transfer_row list" where
  "self_transfer_summary flows =
     (let selfs = filter uf_is_self_transfer flows in
      if length selfs = 0 then []
      else
        sort_key (\<lambda>r. - int (st_transfer_count r))
          (map (\<lambda>w. let g = filter (\<lambda>f. uf_start_wallet f = w) selfs in
                  \<lparr> st_wallet = w,
                    st_transfer_count = length g,
                    st_total_volume_usd = sum_list (map uf_usd_value g),
                    st_avg_volume_usd = sum_list (map uf_usd_value g) / real (length g) \<rparr>)
             (sort (remdups (map uf_start_wallet selfs)))))"

definition detect_self_transfers :: "wash_detector \<Rightarrow> self_transfer_row list \<times> wash_detector" where
  "detect_self_transfers d =
     (let summary = self_transfer_summary (wd_user_flows d) in
      (summary,
       d\<lparr> wd_suspicious_wallets := wd_suspicious_wallets d \<union> set (map st_wallet summary) \<rparr>))"

subsection \<open>Rapid round-trips\<close>

text \<open>\<^verbatim>\<open>tuple(sorted([start_wallet, end_wallet]))\<close>\<close>

definition wallet_pair :: "user_flow \<Rightarrow> wallet \<times> wallet" where
  "wallet_pair f =
     (min (uf_start_wallet f) (uf_end_wallet f), max (uf_start_wallet f) (uf_end_wallet f))"

text \<open>\<^verbatim>\<open>flows.groupby('wallet_pair')\<close>: the pairs in ascending order, each with its rows.\<close>

definition pair_groups :: "user_flow list \<Rightarrow> ((wallet \<times> wallet) \<times> user_flow list) list" where
  "pair_groups flows =
     map (\<lambda>p. (p, filter (\<lambda>f. wallet_pair f = p) flows)) (sort (remdups (map wallet_pair flows)))"

text \<open>The returns that match one outgoing transfer: later than it, and at most
  \<^verbatim>\<open>time_threshold_hours\<close> later.\<close>

definition matching_returns :: "int \<Rightarrow> user_flow list \<Rightarrow> user_flow \<Rightarrow> user_flow list" where
  "matching_returns time_threshold_hours b_to_a out_transfer =
     (let time_window_end = uf_timestamp out_transfer + 3600 * time_threshold_hours in
      filter (\<lambda>r. uf_timestamp r > uf_timestamp out_transfer \<and> uf_timestamp r \<le> time_window_end)
        b_to_a)"

text \<open>The loop \<^verbatim>\<open>for _, out_transfer in a_to_b.iterrows(): roundtrip_count += ...\<close>\<close>

definition count_roundtrips :: "int \<Rightarrow> user_flow list \<Rightarrow> user_flow list \<Rightarrow> nat" where
  "count_roundtrips time_threshold_hours a_to_b b_to_a =
     foldl (\<lambda>roundtrip_count out_transfer.
              roundtrip_count + length (matching_returns time_threshold_hours b_to_a out_transfer))
       0 a_to_b"

definition roundtrip_of_group ::
    "int \<Rightarrow> wallet \<times> wallet \<Rightarrow> user_flow list \<Rightarrow> roundtrip_row option" where
  "roundtrip_of_group time_threshold_hours pair grp =
     (if length grp < 2 then None
      else
        let wallet_a = fst pair;
            wallet_b = snd pair;
            a_to_b = sort_key uf_timestamp (filter (\<lambda>f. uf_start_wallet f = wallet_a) grp);
            b_to_a = sort_key uf_timestamp (filter (\<lambda>f. uf_start_wallet f = wallet_b) grp)
        in if length a_to_b = 0 \<or> length b_to_a = 0 then None
           else
             let roundtrip_count = count_roundtrips time_threshold_hours a_to_b b_to_a in
             if roundtrip_count \<ge> 2 then
               Some \<lparr> rt_wallet_a = wallet_a, rt_wallet_b = wallet_b,
                      rt_roundtrip_count = roundtrip_count,
                      rt_total_transactions = length grp \<rparr>
             else None)"

definition roundtrip_table :: "int \<Rightarrow> user_flow list \<Rightarrow> roundtrip_row list" where
  "roundtrip_table time_threshold_hours flows =
     List.map_filter (\<lambda>(pair, grp). roundtrip_of_group time_threshold_hours pair grp)
       (pair_groups flows)"

definition detect_rapid_roundtrips ::
    "int \<Rightarrow> wash_detector \<Rightarrow> roundtrip_row list \<times> wash_detector" where
  "detect_rapid_roundtrips time_threshold_hours d =
     (let result_df = roundtrip_table time_threshold_hours (wd_user_flows d) in
      if result_df \<noteq> [] then
        (result_df,
         d\<lparr> wd_suspicious_wallets :=
              wd_suspicious_wallets d \<union> set (map rt_wallet_a result_df)
                \<union> set (map rt_wallet_b result_df) \<rparr>)
      else (result_df, d))"

subsection \<open>High-frequency pairs\<close>

definition high_frequency_table :: "int \<Rightarrow> user_flow list \<Rightarrow> pair_row list" where
  "high_frequency_table min_transactions flows =
     (let pair_counts = map (\<lambda>(pair, grp). (pair, length grp)) (pair_groups flows);
          high_freq_pairs = filter (\<lambda>(pair, n). int n \<ge> min_transactions) pair_counts
      in if length high_freq_pairs = 0 then []
         else
           sort_key (\<lambda>r. - int (hf_transaction_count r))
             (map (\<lambda>(pair, n).
                     \<lparr> hf_wallet_a = fst pair, hf_wallet_b = snd pair, hf_transaction_count = n \<rparr>)
                high_freq_pairs))"

definition detect_high_frequency_pairs ::
    "int \<Rightarrow> wash_detector \<Rightarrow> pair_row list \<times> wash_detector" where
  "detect_high_frequency_pairs min_transactions d =
     (let result_df = high_frequency_table min_transactions (wd_user_flows d) in
      (result_df,
       d\<lparr> wd_suspicious_wallets :=
            wd_suspicious_wallets d \<union> set (map hf_wallet_a result_df)
              \<union> set (map hf_wallet_b result_df) \<rparr>))"

subsection \<open>Circular patterns\<close>

text \<open>The directed graph: one edge per ordered wallet pair, in insertion order, with the
  summed USD value as weight. (\<^verbatim>\<open>row['usd_value'] or 0\<close> is the value itself.)\<close>

type_synonym digraph = "((wallet \<times> wallet) \<times> real) list"

definition add_flow :: "digraph \<Rightarrow> user_flow \<Rightarrow> digraph" where
  "add_flow G row =
     (let e = (uf_start_wallet row, uf_end_wallet row) in
      if e \<in> set (map fst G)
      then map (\<lambda>(e', w). if e' = e then (e', w + uf_usd_value row) else (e', w)) G
      else G @ [(e, uf_usd_value row)])"

definition flow_graph :: "user_flow list \<Rightarrow> digraph" where
  "flow_graph flows = foldl add_flow [] flows"

text \<open>\<^verbatim>\<open>nx.simple_cycles\<close> belongs to the networkx library: the detector takes it as the
  parameter \<open>simple_cycles\<close>, which returns the enumerated cycles, or \<open>None\<close> when the
  enumeration raises (the detector's bare \<^verbatim>\<open>except: pass\<close> then leaves no cycle).\<close>

definition cycle_table ::
    "(digraph \<Rightarrow> wallet list list option) \<Rightarrow> nat \<Rightarrow> user_flow list \<Rightarrow> cycle_row list" where
  "cycle_table simple_cycles max_cycle_length flows =
     (case simple_cycles (flow_graph flows) of
        None \<Rightarrow> []
      | Some cycles \<Rightarrow>
          map (\<lambda>cycle. \<lparr> cy_cycle_length = length cycle, cy_wallets = cycle \<rparr>)
            (filter (\<lambda>cycle. 2 \<le> length cycle \<and> length cycle \<le> max_cycle_length)
               (take 1000 cycles)))"

text \<open>Every cycle that is kept is appended to the table and added to the suspicious
  wallets in the same step of the loop.\<close>

definition detect_circular_patterns ::
    "(digraph \<Rightarrow> wallet list list option) \<Rightarrow> nat \<Rightarrow> wash_detector
       \<Rightarrow> cycle_row list \<times> wash_detector" where
  "detect_circular_patterns simple_cycles max_cycle_length d =
     (let cycles_found = cycle_table simple_cycles max_cycle_length (wd_user_flows d) in
      (cycles_found,
       foldl (\<lambda>d' row. d'\<lparr> wd_suspicious_wallets :=
                              wd_suspicious_wallets d' \<union> set (cy_wallets row) \<rparr>)
         d cycles_found))"

subsection \<open>Volume concentration\<close>

definition wallet_volume :: "user_flow list \<Rightarrow> wallet \<Rightarrow> real" where
  "wallet_volume flows w =
     sum_list (map uf_usd_value (filter (\<lambda>f. uf_start_wallet f = w) flows))
     + sum_list (map uf_usd_value (filter (\<lambda>f. uf_end_wallet f = w) flows))"

definition volume_table :: "nat \<Rightarrow> user_flow list \<Rightarrow> volume_row list" where
  "volume_table top_n flows =
     (let index = sort (remdups (map uf_start_wallet flows @ map uf_end_wallet flows));
          total_volume =
            sort_key (\<lambda>r. - vc_total_volume_usd r)
              (map (\<lambda>w. \<lparr> vc_wallet = w, vc_total_volume_usd = wallet_volume flows w \<rparr>) index)
      in take top_n total_volume)"

definition analyze_volume_concentration ::
    "nat \<Rightarrow> wash_detector \<Rightarrow> volume_row list \<times> wash_detector" where
  "analyze_volume_concentration top_n d = (volume_table top_n (wd_user_flows d), d)"

subsection \<open>Temporal clustering\<close>

text \<open>\<^verbatim>\<open>dt.floor\<close> to a window of \<open>time_window_minutes > 0\<close> minutes (pandas rejects a
  window of zero; the pipeline only uses the default of five minutes).\<close>

definition time_window :: "nat \<Rightarrow> user_flow \<Rightarrow> int" where
  "time_window time_window_minutes f =
     uf_timestamp f - uf_timestamp f mod (60 * int time_window_minutes)"

definition cluster_table :: "nat \<Rightarrow> user_flow list \<Rightarrow> cluster_row list" where
  "cluster_table time_window_minutes flows =
     (let windows = map (time_window time_window_minutes) flows;
          clusters = map (\<lambda>t. (t, length (filter (\<lambda>t'. t' = t) windows))) (sort (remdups windows))
      in map (\<lambda>(t, n). \<lparr> tc_timestamp = t, tc_transaction_count = n \<rparr>)
           (filter (\<lambda>(t, n). n \<ge> 3) clusters))"

definition detect_temporal_clustering ::
    "nat \<Rightarrow> wash_detector \<Rightarrow> cluster_row list \<times> wash_detector" where
  "detect_temporal_clustering time_window_minutes d =
     (cluster_table time_window_minutes (wd_user_flows d), d)"

subsection \<open>\<^verbatim>\<open>run_all_analyses\<close>: the six analyses with their default parameters\<close>

definition run_all_analyses ::
    "(digraph \<Rightarrow> wallet list list option) \<Rightarrow> wash_detector \<Rightarrow> wash_detector" where
  "run_all_analyses simple_cycles d0 =
     (let (r1, d1) = detect_self_transfers d0;
          (r2, d2) = detect_rapid_roundtrips 24 d1;
          (r3, d3) = detect_high_frequency_pairs 10 d2;
          (r4, d4) = detect_circular_patterns simple_cycles 4 d3;
          (r5, d5) = analyze_volume_concentration 20 d4;
          (r6, d6) = detect_temporal_clustering 5 d5
      in d6\<lparr> wd_results :=
              \<lparr> self_transfers = r1, rapid_roundtrips = r2, high_frequency_pairs = r3,
                circular_patterns = r4, volume_concentration = r5,
                temporal_clustering = r6 \<rparr> \<rparr>)"

text \<open>The wallets that appear in a findings table.\<close>

definition self_transfer_wallets :: "self_transfer_row list \<Rightarrow> wallet set" where
  "self_transfer_wallets df = set (map st_wallet df)"

definition roundtrip_wallets :: "roundtrip_row list \<Rightarrow> wallet set" where
  "roundtrip_wallets df = set (map rt_wallet_a df) \<union> set (map rt_wallet_b df)"

definition pair_wallets :: "pair_row list \<Rightarrow> wallet set" where
  "pair_wallets df = set (map hf_wallet_a df) \<union> set (map hf_wallet_b df)"

definition cycle_wallets :: "cycle_row list \<Rightarrow> wallet set" where
  "cycle_wallets df = \<Union> (set (map (\<lambda>r. set (cy_wallets r)) df))"

definition volume_wallets :: "volume_row list \<Rightarrow> wallet set" where
  "volume_wallets df = set (map vc_wallet df)"

subsection \<open>The round-trip count and latency of the specification\<close>

text \<open>The round-trip count in the words of the specification: for every \<open>A \<rightarrow> B\<close> flow
  at time \<open>t\<close>, the \<open>B \<rightarrow> A\<close> flows with time in \<open>(t, t + window]\<close>, summed over the
  \<open>A \<rightarrow> B\<close> flows. One \<open>B \<rightarrow> A\<close> flow is counted once for every \<open>A \<rightarrow> B\<close> flow it
  answers.\<close>

definition spec_returns :: "int \<Rightarrow> user_flow list \<Rightarrow> wallet \<Rightarrow> wallet \<Rightarrow> user_flow \<Rightarrow> user_flow list" where
  "spec_returns window flows a b f =
     filter (\<lambda>g. uf_start_wallet g = b \<and> uf_end_wallet g = a
                \<and> uf_timestamp f < uf_timestamp g \<and> uf_timestamp g \<le> uf_timestamp f + window)
       flows"

definition spec_matched_count :: "int \<Rightarrow> user_flow list \<Rightarrow> wallet \<Rightarrow> wallet \<Rightarrow> nat" where
  "spec_matched_count window flows a b =
     sum_list (map (\<lambda>f. length (spec_returns window flows a b f))
                 (filter (\<lambda>f. uf_start_wallet f = a \<and> uf_end_wallet f = b) flows))"

text \<open>The return latencies of a pair, and the least of them (\<open>None\<close> when no return
  matches).\<close>

definition spec_return_latencies :: "int \<Rightarrow> user_flow list \<Rightarrow> wallet \<Rightarrow> wallet \<Rightarrow> int list" where
  "spec_return_latencies window flows a b =
     concat (map (\<lambda>f. map (\<lambda>g. uf_timestamp g - uf_timestamp f) (spec_returns window flows a b f))
               (filter (\<lambda>f. uf_start_wallet f = a \<and> uf_end_wallet f = b) flows))"

definition spec_min_return_latency :: "int \<Rightarrow> user_flow list \<Rightarrow> wallet \<Rightarrow> wallet \<Rightarrow> int option" where
  "spec_min_return_latency window flows a b =
     (case spec_return_latencies window flows a b of
        [] \<Rightarrow> None
      | l # ls \<Rightarrow> Some (fold min ls l))"

subsection \<open>Example flow tables\<close>

text \<open>Flow tables for the examples: a flow of 10 USD from one wallet to another at a
  given time.\<close>

definition flow :: "string \<Rightarrow> wallet \<Rightarrow> wallet \<Rightarrow> int \<Rightarrow> user_flow" where
  "flow h a b t =
     \<lparr> uf_transaction_hash = h, uf_start_wallet = a, uf_end_wallet = b,
       uf_start_entity_type = None, uf_end_entity_type = None, uf_timestamp = t,
       uf_block_number = 1, uf_usd_value = 10, uf_hop_count = 1,
       uf_is_self_transfer = (a = b) \<rparr>"

text \<open>One transfer out and two returns, one and two hours later.\<close>

definition quick_returns :: "user_flow list" where
  "quick_returns = [flow ''t1'' ''A'' ''B'' 0, flow ''t2'' ''B'' ''A'' 3600, flow ''t3'' ''B'' ''A'' 7200]"

text \<open>The same, with the returns three and four hours later.\<close>

definition slow_returns :: "user_flow list" where
  "slow_returns = [flow ''t1'' ''A'' ''B'' 0, flow ''t2'' ''B'' ''A'' 10800, flow ''t3'' ''B'' ''A'' 14400]"

text \<open>Five transfers from \<open>A\<close> to \<open>B\<close>, an hour apart, and none back.\<close>

definition one_way :: "user_flow list" where
  "one_way =
     [flow ''t1'' ''A'' ''B'' 0, flow ''t2'' ''A'' ''B'' 3600, flow ''t3'' ''A'' ''B'' 7200,
      flow ''t4'' ''A'' ''B'' 10800, flow ''t5'' ''A'' ''B'' 14400]"

text \<open>A graph without a cycle has no simple cycle to enumerate.\<close>

definition no_cycles :: "digraph \<Rightarrow> wallet list list option" where
  "no_cycles G = Some []"

text \<open>On a graph over the two wallets \<open>A\<close> and \<open>B\<close> the edges \<open>A \<rightarrow> B\<close> and \<open>B \<rightarrow> A\<close> form
  the one simple cycle of more than one wallet, which networkx lists as \<open>[B, A]\<close>; without
  one of the two edges there is none.\<close>

definition cycles_A_B :: "digraph \<Rightarrow> wallet list list option" where
  "cycles_A_B G =
     (if (''A'', ''B'') \<in> set (map fst G) \<and> (''B'', ''A'') \<in> set (map fst G)
      then Some [[''B'', ''A'']] else Some [])"

text \<open>The wallets of the four findings tables that feed the suspicious set.\<close>

definition flagged_wallets :: "wash_results \<Rightarrow> wallet set" where
  "flagged_wallets r =
     self_transfer_wallets (self_transfers r) \<union> roundtrip_wallets (rapid_roundtrips r)
     \<union> pair_wallets (high_frequency_pairs r) \<union> cycle_wallets (circular_patterns r)"

section \<open>Bot detection (\<^verbatim>\<open>BotDetector\<close>)\<close>

subsection \<open>Tables and payloads\<close>

text \<open>A float that may be NaN or infinite: \<open>None\<close> stands for a value that is not
  finite; every comparison with it is false.\<close>

type_synonym pyfloat = "real option"

definition lt_f :: "pyfloat \<Rightarrow> real \<Rightarrow> bool" where
  "lt_f x c = (case x of None \<Rightarrow> False | Some v \<Rightarrow> v < c)"

definition gt_f :: "pyfloat \<Rightarrow> real \<Rightarrow> bool" where
  "gt_f x c = (case x of None \<Rightarrow> False | Some v \<Rightarrow> v > c)"

text \<open>A numeric column of a DataFrame; a missing or null cell is NaN.\<close>

type_synonym column = "pyfloat list"

definition dropna :: "column \<Rightarrow> real list" where
  "dropna col = List.map_filter id col"

definition col_sum :: "column \<Rightarrow> real" where
  "col_sum col = sum_list (dropna col)"

definition mean :: "real list \<Rightarrow> real" where
  "mean xs = sum_list xs / real (length xs)"

text \<open>\<^verbatim>\<open>Series.std()\<close>: the sample standard deviation, NaN below two values.\<close>

definition pd_std :: "real list \<Rightarrow> pyfloat" where
  "pd_std xs =
     (if length xs < 2 then None
      else Some (sqrt (sum_list (map (\<lambda>x. (x - mean xs)\<^sup>2) xs) / real (length xs - 1))))"

text \<open>\<^verbatim>\<open>xs.std() / (xs.mean() + 1)\<close>; a zero denominator gives NaN or infinity.\<close>

definition cv :: "real list \<Rightarrow> pyfloat" where
  "cv xs =
     (case pd_std xs of
        None \<Rightarrow> None
      | Some s \<Rightarrow> if mean xs + 1 = 0 then None else Some (s / (mean xs + 1)))"

text \<open>The tables built from the payloads. A table has its rows and the columns that are
  a key of some row; a column that the code tests for with \<^verbatim>\<open>in df.columns\<close> is optional.
  Every transfer of a wallet carries its block timestamp.\<close>

record transfers_df =
  tr_blockTimestamp :: "int list"
  tr_historicalUSD :: "column option"

record counterparties_df =
  cp_rows :: nat
  cp_totalVolumeUSD :: "column option"
  cp_arkhamEntity :: "string option list option"

record chain_data =
  cd_tags :: "string list"
  cd_entityPredictions :: bool

record balances_df =
  bal_rows :: nat
  bal_balanceUSD :: "column option"

record flow_df =
  fl_rows :: nat
  fl_inflowUSD :: "column option"
  fl_outflowUSD :: "column option"

text \<open>\<^verbatim>\<open>self.wallet_data[wallet]\<close>. \<open>None\<close> is an absent payload: the endpoint was not
  asked, the call returned \<^verbatim>\<open>None\<close>, or the payload fails the guards of
  \<^verbatim>\<open>extract_features\<close> (falsy, not of the expected JSON type, without the list key).
  An intelligence payload is the list of its per-chain records; one that is not a list
  sets the same features as a single record without tags. The \<^verbatim>\<open>portfolio\<close> payload is
  fetched and never read.\<close>

record wallet_payloads =
  wp_transfers :: "transfers_df option"
  wp_counterparties :: "counterparties_df option"
  wp_intelligence :: "chain_data list option"
  wp_balances :: "balances_df option"
  wp_flow :: "flow_df option"

text \<open>The feature dictionary: a key that is not set is \<open>None\<close>.\<close>

record features =
  api_transfer_count :: "nat option"
  api_total_volume :: "real option"
  api_txs_per_hour :: "real option"
  api_off_hours_ratio :: "real option"
  api_time_regularity_cv :: "pyfloat option"
  api_value_cv :: "pyfloat option"
  api_avg_decimal_places :: "real option"
  cp_unique_counterparties :: "nat option"
  cp_top_counterparty_ratio :: "pyfloat option"
  cp_dex_ratio :: "real option"
  cp_cex_ratio :: "real option"
  intel_tag_count :: "nat option"
  intel_has_entity_prediction :: "bool option"
  intel_has_bot_tag :: "bool option"
  bal_token_diversity :: "nat option"
  bal_total_usd :: "real option"
  bal_portfolio_concentration :: "real option"
  flow_balance_ratio :: "real option"

definition no_features :: features where
  "no_features =
     \<lparr> api_transfer_count = None, api_total_volume = None, api_txs_per_hour = None,
       api_off_hours_ratio = None, api_time_regularity_cv = None, api_value_cv = None,
       api_avg_decimal_places = None, cp_unique_counterparties = None,
       cp_top_counterparty_ratio = None, cp_dex_ratio = None, cp_cex_ratio = None,
       intel_tag_count = None, intel_has_entity_prediction = None, intel_has_bot_tag = None,
       bal_token_diversity = None, bal_total_usd = None, bal_portfolio_concentration = None,
       flow_balance_ratio = None \<rparr>"

subsection \<open>\<^verbatim>\<open>extract_features\<close>\<close>

text \<open>The hour of day of a timestamp, and the differences of consecutive rows.\<close>

definition hour :: "int \<Rightarrow> int" where
  "hour t = (t div 3600) mod 24"

fun diffs :: "int list \<Rightarrow> int list" where
  "diffs (x # y # ys) = (y - x) # diffs (y # ys)"
| "diffs _ = []"

text \<open>\<^verbatim>\<open>count_decimals\<close>: the decimals left of \<^verbatim>\<open>f"{value:.10f}"\<close> once the trailing
  zeros are stripped.\<close>

fun trailing_zeros :: "nat \<Rightarrow> int \<Rightarrow> nat" where
  "trailing_zeros 0 r = 0"
| "trailing_zeros (Suc k) r =
     (if r mod 10 = 0 then Suc (trailing_zeros k (r div 10)) else 0)"

definition count_decimals :: "real \<Rightarrow> nat" where
  "count_decimals v = (if v = 0 then 0 else 10 - trailing_zeros 10 (round (\<bar>v\<bar> * 10 ^ 10)))"

definition transfers_features :: "transfers_df option \<Rightarrow> features \<Rightarrow> features" where
  "transfers_features payload fs =
     (case payload of
        None \<Rightarrow> fs
      | Some df \<Rightarrow>
          let ts = tr_blockTimestamp df; n = length ts in
          if n = 0 then fs
          else
            let time_span = real_of_int (Max (set ts) - Min (set ts)) / 3600;
                time_diffs = map real_of_int (diffs ts);
                fs1 = fs\<lparr> api_transfer_count := Some n,
                          api_total_volume :=
                            Some (case tr_historicalUSD df of None \<Rightarrow> 0 | Some col \<Rightarrow> col_sum col),
                          api_txs_per_hour := Some (real n / max time_span 1),
                          api_off_hours_ratio :=
                            Some (real (length (filter (\<lambda>t. 0 \<le> hour t \<and> hour t \<le> 6) ts)) / real n) \<rparr>;
                fs2 = (if length time_diffs > 0
                       then fs1\<lparr> api_time_regularity_cv := Some (cv time_diffs) \<rparr> else fs1)
            in case tr_historicalUSD df of
                 None \<Rightarrow> fs2
               | Some col \<Rightarrow>
                   let usd_values = dropna col in
                   if length usd_values > 0
                   then fs2\<lparr> api_value_cv := Some (cv usd_values),
                             api_avg_decimal_places :=
                               Some (mean (map (\<lambda>v. real (count_decimals v)) usd_values)) \<rparr>
                   else fs2)"

definition counterparties_features :: "counterparties_df option \<Rightarrow> features \<Rightarrow> features" where
  "counterparties_features payload fs =
     (case payload of
        None \<Rightarrow> fs
      | Some df \<Rightarrow>
          if cp_rows df = 0 then fs
          else
            let fs1 = fs\<lparr> cp_unique_counterparties := Some (cp_rows df) \<rparr>;
                fs2 = (case cp_totalVolumeUSD df of
                         None \<Rightarrow> fs1
                       | Some col \<Rightarrow>
                           let total_vol = col_sum col in
                           if total_vol > 0
                           then fs1\<lparr> cp_top_counterparty_ratio :=
                                       Some (case col of
                                               [] \<Rightarrow> None
                                             | v # _ \<Rightarrow> map_option (\<lambda>x. x / total_vol) v) \<rparr>
                           else fs1)
            in case cp_arkhamEntity df of
                 None \<Rightarrow> fs2
               | Some entity_types \<Rightarrow>
                   fs2\<lparr> cp_dex_ratio :=
                          Some (real (length (filter (\<lambda>t. t = Some ''dex'') entity_types))
                                  / real (cp_rows df)),
                        cp_cex_ratio :=
                          Some (real (length (filter (\<lambda>t. t = Some ''cex'') entity_types))
                                  / real (cp_rows df)) \<rparr>)"

definition bot_keywords :: "string list" where
  "bot_keywords = [''bot'', ''mev'', ''flashbot'', ''arbitrage'', ''automated'', ''sniper'']"

text \<open>\<^verbatim>\<open>str.lower\<close> on ASCII letters, and \<^verbatim>\<open>keyword in tag\<close>.\<close>

definition lower_char :: "char \<Rightarrow> char" where
  "lower_char c =
     (if (65 :: nat) \<le> of_char c \<and> of_char c \<le> (90 :: nat)
      then char_of (of_char c + (32 :: nat)) else c)"

definition contains :: "string \<Rightarrow> string \<Rightarrow> bool" where
  "contains keyword tag =
     list_ex (\<lambda>i. take (length keyword) (drop i tag) = keyword) [0 ..< Suc (length tag)]"

definition intelligence_features :: "chain_data list option \<Rightarrow> features \<Rightarrow> features" where
  "intelligence_features payload fs =
     (case payload of
        None \<Rightarrow> fs
      | Some intel \<Rightarrow>
          if intel = [] then fs
          else
            let all_tags = concat (map cd_tags intel);
                has_prediction = list_ex cd_entityPredictions intel
            in fs\<lparr> intel_tag_count := Some (card (set all_tags)),
                    intel_has_entity_prediction := Some has_prediction,
                    intel_has_bot_tag :=
                      Some (list_ex (\<lambda>tag. list_ex (\<lambda>keyword. contains keyword (map lower_char tag))
                                               bot_keywords) all_tags) \<rparr>)"

definition balances_features :: "balances_df option \<Rightarrow> features \<Rightarrow> features" where
  "balances_features payload fs =
     (case payload of
        None \<Rightarrow> fs
      | Some df \<Rightarrow>
          if bal_rows df = 0 then fs
          else
            let fs1 = fs\<lparr> bal_token_diversity := Some (bal_rows df) \<rparr> in
            case bal_balanceUSD df of
              None \<Rightarrow> fs1
            | Some col \<Rightarrow>
                let total = col_sum col;
                    fs2 = fs1\<lparr> bal_total_usd := Some total \<rparr>
                in if total > 0
                   then fs2\<lparr> bal_portfolio_concentration := Some (Max (set (dropna col)) / total) \<rparr>
                   else fs2)"

definition flow_features :: "flow_df option \<Rightarrow> features \<Rightarrow> features" where
  "flow_features payload fs =
     (case payload of
        None \<Rightarrow> fs
      | Some df \<Rightarrow>
          if fl_rows df = 0 then fs
          else
            case (fl_inflowUSD df, fl_outflowUSD df) of
              (Some inflow, Some outflow) \<Rightarrow>
                let total_inflow = col_sum inflow; total_outflow = col_sum outflow in
                if total_inflow + total_outflow > 0
                then fs\<lparr> flow_balance_ratio :=
                           Some ((total_inflow - total_outflow) / (total_inflow + total_outflow)) \<rparr>
                else fs
            | _ \<Rightarrow> fs)"

text \<open>A wallet without an entry in \<^verbatim>\<open>wallet_data\<close> has no feature at all.\<close>

definition extract_features :: "(wallet \<rightharpoonup> wallet_payloads) \<Rightarrow> wallet \<Rightarrow> features" where
  "extract_features wallet_data w =
     (case wallet_data w of
        None \<Rightarrow> no_features
      | Some data \<Rightarrow>
          flow_features (wp_flow data)
            (balances_features (wp_balances data)
              (intelligence_features (wp_intelligence data)
                (counterparties_features (wp_counterparties data)
                  (transfers_features (wp_transfers data) no_features)))))"

subsection \<open>\<^verbatim>\<open>calculate_bot_score\<close>\<close>

text \<open>\<^verbatim>\<open>features.get(key, default)\<close>\<close>

definition get_or :: "'a option \<Rightarrow> 'a \<Rightarrow> 'a" where
  "get_or v d = (case v of None \<Rightarrow> d | Some x \<Rightarrow> x)"

text \<open>The six category scores, each the sum of the points of its rules.\<close>

definition timing_score :: "features \<Rightarrow> real" where
  "timing_score fs =
     (if get_or (api_txs_per_hour fs) 0 > 10 then 1.5 else 0)
     + (if lt_f (get_or (api_time_regularity_cv fs) (Some 1)) 0.5 then 1.5 else 0)
     + (if get_or (api_off_hours_ratio fs) 0 > 0.4 then 2 else 0)"

definition pattern_score :: "features \<Rightarrow> real" where
  "pattern_score fs =
     (if get_or (api_avg_decimal_places fs) 0 \<ge> 4 then 1.5 else 0)
     + (if lt_f (get_or (api_value_cv fs) (Some 1)) 0.3 then 1.5 else 0)"

definition cp_score :: "features \<Rightarrow> real" where
  "cp_score fs =
     (if get_or (cp_unique_counterparties fs) 100 < 5 then 2 else 0)
     + (if gt_f (get_or (cp_top_counterparty_ratio fs) (Some 0)) 0.6 then 2 else 0)"

definition intel_score :: "features \<Rightarrow> real" where
  "intel_score fs =
     (if get_or (intel_has_bot_tag fs) False then 3
      else if get_or (intel_has_entity_prediction fs) False then 1
      else 0)"

definition port_score :: "features \<Rightarrow> real" where
  "port_score fs =
     (if get_or (bal_portfolio_concentration fs) 0 > 0.9 then 1 else 0)
     + (if get_or (bal_token_diversity fs) 100 < 3 then 1 else 0)"

definition flow_score :: "features \<Rightarrow> real" where
  "flow_score fs = (if \<bar>get_or (flow_balance_ratio fs) 0\<bar> < 0.1 then 1 else 0)"

text \<open>The keys set in \<^verbatim>\<open>reasoning\<close>, in the order the rules are tried.\<close>

definition reasoning :: "features \<Rightarrow> string list" where
  "reasoning fs =
     (if get_or (api_txs_per_hour fs) 0 > 10 then [''high_frequency''] else [])
     @ (if lt_f (get_or (api_time_regularity_cv fs) (Some 1)) 0.5 then [''regular_timing''] else [])
     @ (if get_or (api_off_hours_ratio fs) 0 > 0.4 then [''off_hours_active''] else [])
     @ (if get_or (api_avg_decimal_places fs) 0 \<ge> 4 then [''precise_values''] else [])
     @ (if lt_f (get_or (api_value_cv fs) (Some 1)) 0.3 then [''consistent_values''] else [])
     @ (if get_or (cp_unique_counterparties fs) 100 < 5 then [''limited_counterparties''] else [])
     @ (if gt_f (get_or (cp_top_counterparty_ratio fs) (Some 0)) 0.6
        then [''concentrated_trading''] else [])
     @ (if get_or (intel_has_bot_tag fs) False then [''bot_tag_detected'']
        else if get_or (intel_has_entity_prediction fs) False then [''known_entity''] else [])
     @ (if get_or (bal_portfolio_concentration fs) 0 > 0.9 then [''concentrated_portfolio''] else [])
     @ (if get_or (bal_token_diversity fs) 100 < 3 then [''low_diversity''] else [])
     @ (if \<bar>get_or (flow_balance_ratio fs) 0\<bar> < 0.1 then [''balanced_flow''] else [])"

text \<open>The weighted sum is taken in exact reals. The code adds the six terms in floats, and
  a sum that is exactly 0.4, 0.6 or 0.7 here can come out one unit in the last place
  higher there (the terms 0.2, 0.25, 0.1 and 0.05 add up to 0.6000000000000001), so at
  such a score the class and the confidence of \<^verbatim>\<open>classify_wallets\<close> can be the next one
  up. Away from these three values the comparisons agree; nothing below rests on a score
  at a threshold.\<close>

definition calculate_bot_score :: "features \<Rightarrow> real \<times> string list" where
  "calculate_bot_score fs =
     (let score = 0
            + (timing_score fs / 5) * 0.20
            + (pattern_score fs / 3) * 0.20
            + (cp_score fs / 4) * 0.20
            + (intel_score fs / 3) * 0.25
            + (port_score fs / 2) * 0.10
            + (flow_score fs / 1) * 0.05;
          max_score = 0 + 0.20 + 0.20 + 0.20 + 0.25 + 0.10 + 0.05;
          normalized_score = (if max_score > 0 then score / max_score else 0)
      in (normalized_score, reasoning fs))"

subsection \<open>\<^verbatim>\<open>classify_wallets\<close>\<close>

datatype classification = BOT | UNCERTAIN | HUMAN | UNKNOWN

datatype py_error = ZeroDivisionError

record bot_row =
  br_wallet :: wallet
  br_local_tx_count :: nat
  br_local_volume_usd :: real
  br_features :: features
  br_bot_score :: real
  br_bot_confidence :: string
  br_classification :: classification
  br_reasoning :: "string list"

text \<open>\<^verbatim>\<open>Series.value_counts()\<close>: the distinct values with their counts, largest count
  first; \<open>unique\<close> lists the distinct values in order of first appearance.\<close>

definition unique :: "'a list \<Rightarrow> 'a list" where
  "unique xs = rev (remdups (rev xs))"

definition value_counts :: "wallet list \<Rightarrow> (wallet \<times> nat) list" where
  "value_counts xs =
     sort_key (\<lambda>(w, n). - int n) (map (\<lambda>w. (w, count_list xs w)) (unique xs))"

text \<open>\<^verbatim>\<open>end_wallets.reindex(start_wallets.index, fill_value=0)\<close> keeps the wallets of the
  start-wallet index only, so the sum is indexed by the start wallets.\<close>

definition all_wallets :: "user_flow list \<Rightarrow> (wallet \<times> nat) list" where
  "all_wallets flows =
     (let start_wallets = value_counts (map uf_start_wallet flows);
          end_wallets = value_counts (map uf_end_wallet flows);
          reindexed = map (\<lambda>(w, n). (w, case map_of end_wallets w of None \<Rightarrow> 0 | Some m \<Rightarrow> m))
                        start_wallets
      in sort_key (\<lambda>(w, n). - int n) (map2 (\<lambda>(w, n) (w', m). (w, n + m)) start_wallets reindexed))"

text \<open>A \<^verbatim>\<open>sample_size\<close> of \<^verbatim>\<open>None\<close> or 0 is false and cuts nothing.\<close>

definition eligible_wallets :: "user_flow list \<Rightarrow> int \<Rightarrow> nat option \<Rightarrow> wallet list" where
  "eligible_wallets flows min_transactions sample_size =
     (let eligible = map fst (filter (\<lambda>(w, n). int n \<ge> min_transactions) (all_wallets flows)) in
      case sample_size of
        None \<Rightarrow> eligible
      | Some k \<Rightarrow> if k = 0 then eligible else take k eligible)"

text \<open>\<^verbatim>\<open>batch_fetch_wallet_data\<close>: \<open>fetch\<close> stands for the aggregator and gives the
  payloads of a wallet. With no call to make, the success rate it prints divides by
  zero.\<close>

definition batch_fetch_wallet_data ::
    "(wallet \<Rightarrow> wallet_payloads) \<Rightarrow> wallet list \<Rightarrow> py_error + (wallet \<rightharpoonup> wallet_payloads)" where
  "batch_fetch_wallet_data fetch wallets =
     (if wallets = [] then Inl ZeroDivisionError
      else Inr (\<lambda>w. if w \<in> set wallets then Some (fetch w) else None))"

definition classify_wallet ::
    "user_flow list \<Rightarrow> (wallet \<rightharpoonup> wallet_payloads) \<Rightarrow> wallet \<Rightarrow> bot_row" where
  "classify_wallet flows wallet_data w =
     (let wallet_txs = filter (\<lambda>f. uf_start_wallet f = w \<or> uf_end_wallet f = w) flows;
          api_features = extract_features wallet_data w;
          (bot_score, reasons) = calculate_bot_score api_features
      in \<lparr> br_wallet = w,
            br_local_tx_count = length wallet_txs,
            br_local_volume_usd = sum_list (map uf_usd_value wallet_txs),
            br_features = api_features,
            br_bot_score = bot_score,
            br_bot_confidence =
              (if bot_score > 0.7 then ''HIGH'' else if bot_score > 0.4 then ''MEDIUM'' else ''LOW''),
            br_classification =
              (if bot_score > 0.6 then BOT else if bot_score > 0.4 then UNCERTAIN else HUMAN),
            br_reasoning = reasons \<rparr>)"

definition classify_wallets ::
    "(wallet \<Rightarrow> wallet_payloads) \<Rightarrow> user_flow list \<Rightarrow> int \<Rightarrow> nat option \<Rightarrow> py_error + bot_row list" where
  "classify_wallets fetch flows min_transactions sample_size =
     (let eligible = eligible_wallets flows min_transactions sample_size in
      case batch_fetch_wallet_data fetch eligible of
        Inl e \<Rightarrow> Inl e
      | Inr wallet_data \<Rightarrow>
          Inr (sort_key (\<lambda>r. - br_bot_score r) (map (classify_wallet flows wallet_data) eligible)))"

text \<open>The payloads of a wallet for which every call came back empty-handed.\<close>

definition no_payloads :: wallet_payloads where
  "no_payloads =
     \<lparr> wp_transfers = None, wp_counterparties = None, wp_intelligence = None,
       wp_balances = None, wp_flow = None \<rparr>"

text \<open>A flow payload that is present and far from balanced: 100 USD in, nothing out.\<close>

definition inflow_only :: flow_df where
  "inflow_only = \<lparr> fl_rows = 1, fl_inflowUSD = Some [Some 100], fl_outflowUSD = Some [Some 0] \<rparr>"

text \<open>The square root of \<^const>\<open>pd_std\<close> has no code equation; evaluation leaves a
  standard deviation as it stands.\<close>

declare pd_std_def [code del]

section \<open>Holder concentration (\<^verbatim>\<open>HolderAnalyzer.calculate_concentration_metrics\<close>)\<close>

text \<open>A row of \<^verbatim>\<open>df_holders\<close>; the table is kept in descending order of
  \<^verbatim>\<open>Holding %\<close> by \<^verbatim>\<open>process_holder_data\<close>.\<close>

record holder =
  h_Address :: string
  h_Label :: string
  h_Balance :: real
  h_USD_Value :: real
  h_Holding_pct :: real
  h_Rank :: nat

record concentration_metrics =
  top_3_ratio :: real
  top_10_ratio :: real
  whale_dominance :: real
  gini_coefficient :: pyfloat

text \<open>The Gini computation on the column \<^verbatim>\<open>Holding %\<close>: the holdings in ascending
  order, \<^verbatim>\<open>index = sorted_holdings.index + 1\<close>, the sum of \<^verbatim>\<open>2 * index * sorted_holdings\<close>
  over \<^verbatim>\<open>n * sorted_holdings.sum()\<close>. The division is a numpy division: a zero
  denominator gives a value that is not finite.\<close>

definition gini :: "real list \<Rightarrow> pyfloat" where
  "gini holdings =
     (let sorted_holdings = sort holdings;
          n = length sorted_holdings
      in if n = 0 then Some 0
         else
           let index = map (\<lambda>i. real (i + 1)) [0 ..< n];
               numerator = sum_list (map2 (\<lambda>i x. 2 * i * x) index sorted_holdings);
               denominator = real n * sum_list sorted_holdings
           in if denominator = 0 then None
              else Some (numerator / denominator - (real n + 1) / real n))"

definition calculate_concentration_metrics :: "holder list option \<Rightarrow> concentration_metrics" where
  "calculate_concentration_metrics df_holders =
     (case df_holders of
        None \<Rightarrow> \<lparr> top_3_ratio = 0, top_10_ratio = 0, whale_dominance = 0, gini_coefficient = Some 0 \<rparr>
      | Some [] \<Rightarrow> \<lparr> top_3_ratio = 0, top_10_ratio = 0, whale_dominance = 0, gini_coefficient = Some 0 \<rparr>
      | Some (h # hs) \<Rightarrow>
          \<lparr> top_3_ratio = sum_list (map h_Holding_pct (take 3 (h # hs))),
            top_10_ratio = sum_list (map h_Holding_pct (take 10 (h # hs))),
            whale_dominance = h_Holding_pct h,
            gini_coefficient = gini (map h_Holding_pct (h # hs)) \<rparr>)"

text \<open>The formula of the specification: \<open>G = (2 \<Sum> i x\<^sub>i) / (n \<Sum> x\<^sub>i) - (n + 1) / n\<close>, over
  the shares in ascending order with ranks \<open>i = 1, \<dots>, n\<close>.\<close>

definition spec_gini :: "real list \<Rightarrow> real" where
  "spec_gini xs =
     (let x = sort xs; n = length xs in
      (2 * (\<Sum>i = 1..n. real i * x ! (i - 1))) / (real n * (\<Sum>i = 1..n. x ! (i - 1)))
        - (real n + 1) / real n)"

definition equal_holder :: "nat \<Rightarrow> holder" where
  "equal_holder k =
     \<lparr> h_Address = ''holder'', h_Label = ''Wallet'', h_Balance = 1, h_USD_Value = 1,
       h_Holding_pct = 25, h_Rank = k \<rparr>"

section \<open>Risk fusion (\<^verbatim>\<open>RiskScoreAnalyzer\<close>)\<close>

datatype risk_level = LOW | MEDIUM | HIGH | CRITICAL

text \<open>\<^verbatim>\<open>_calculate_risk_level\<close>\<close>

definition calculate_risk_level ::
    "real \<Rightarrow> classification \<Rightarrow> bool \<Rightarrow> nat \<Rightarrow> bool \<Rightarrow> risk_level \<times> real" where
  "calculate_risk_level bot_score bot_classification is_wash_trading wash_flag_count is_top_holder =
     (let s0 = 0 + bot_score * 50;
          s1 = (if is_wash_trading then s0 + real (min (wash_flag_count * 15) 50) else s0);
          s2 = (if is_top_holder
                then (if is_wash_trading \<or> bot_classification = BOT then 100 else s1 + 20)
                else s1);
          risk_score = min s2 100;
          risk_level = (if risk_score \<ge> 75 then CRITICAL
                        else if risk_score \<ge> 50 then HIGH
                        else if risk_score \<ge> 25 then MEDIUM
                        else LOW)
      in (risk_level, risk_score))"

record risk_row =
  rr_wallet :: wallet
  rr_risk_level :: risk_level
  rr_risk_score :: real
  rr_bot_score :: real
  rr_bot_classification :: classification
  rr_bot_confidence :: string
  rr_is_wash_trading :: bool
  rr_wash_trading_flags :: "string list"
  rr_wash_flag_count :: nat
  rr_is_top_holder :: bool
  rr_risk_threat :: risk_level

text \<open>The loop over \<^verbatim>\<open>self.wash_detector.results.items()\<close>: the name of every table that
  has the wallet in its wallet column, in the order of the tables. The temporal-clustering
  table matches no branch.\<close>

definition wash_flags :: "wash_results \<Rightarrow> wallet \<Rightarrow> string list" where
  "wash_flags results w =
     (if w \<in> set (map st_wallet (self_transfers results)) then [''self_transfers''] else [])
     @ (if w \<in> set (map rt_wallet_a (rapid_roundtrips results))
           \<or> w \<in> set (map rt_wallet_b (rapid_roundtrips results))
        then [''rapid_roundtrips''] else [])
     @ (if w \<in> set (map hf_wallet_a (high_frequency_pairs results))
           \<or> w \<in> set (map hf_wallet_b (high_frequency_pairs results))
        then [''high_frequency_pairs''] else [])
     @ (if list_ex (\<lambda>row. w \<in> set (cy_wallets row)) (circular_patterns results)
        then [''circular_patterns''] else [])
     @ (if w \<in> set (map vc_wallet (volume_concentration results))
        then [''volume_concentration''] else [])"

definition risk_row_of :: "bot_row list \<Rightarrow> wash_detector \<Rightarrow> wallet set \<Rightarrow> wallet \<Rightarrow> risk_row" where
  "risk_row_of bot_results d top_holders_set w =
     (let (bot_score, bot_classification, bot_confidence) =
            (case List.find (\<lambda>r. br_wallet r = w) bot_results of
               Some bot_row \<Rightarrow> (br_bot_score bot_row, br_classification bot_row, br_bot_confidence bot_row)
             | None \<Rightarrow> (0, UNKNOWN, ''N/A''));
          is_wash_trading = (w \<in> wd_suspicious_wallets d);
          flags = wash_flags (wd_results d) w;
          is_top_holder = (w \<in> top_holders_set);
          (risk_level, risk_score) =
            calculate_risk_level bot_score bot_classification is_wash_trading (length flags)
              is_top_holder
      in \<lparr> rr_wallet = w,
            rr_risk_level = risk_level,
            rr_risk_score = risk_score,
            rr_bot_score = bot_score,
            rr_bot_classification = bot_classification,
            rr_bot_confidence = bot_confidence,
            rr_is_wash_trading = is_wash_trading,
            rr_wash_trading_flags = flags,
            rr_wash_flag_count = length flags,
            rr_is_top_holder = is_top_holder,
            rr_risk_threat =
              (if bot_classification = BOT \<and> is_wash_trading then CRITICAL
               else if bot_classification = BOT \<or> is_wash_trading then HIGH
               else if bot_classification = UNCERTAIN then MEDIUM
               else LOW) \<rparr>)"

text \<open>\<^verbatim>\<open>create_risk_analysis\<close>: one row for every wallet of the bot table or of the
  suspicious set (visited here in ascending order; Python fixes no order on a set), the
  rows then sorted by descending risk score. The bot table of \<^verbatim>\<open>classify_wallets\<close> is
  never empty.\<close>

definition create_risk_analysis ::
    "bot_row list \<Rightarrow> wash_detector \<Rightarrow> wallet list \<Rightarrow> risk_row list" where
  "create_risk_analysis bot_results d top_holders =
     (let wash_wallets = wd_suspicious_wallets d;
          all_wallets = sorted_list_of_set (set (map br_wallet bot_results) \<union> wash_wallets);
          top_holders_set = set top_holders
      in sort_key (\<lambda>r. - rr_risk_score r)
           (map (risk_row_of bot_results d top_holders_set) all_wallets))"

text \<open>\<^verbatim>\<open>calculate_token_risk_score\<close>. The holder metrics are a dictionary; \<open>risk_results\<close>
  is \<open>None\<close> until \<^verbatim>\<open>create_risk_analysis\<close> has run.\<close>

record token_risk =
  token_risk_score :: real
  risk_components :: "(string \<times> real) list"

definition dict_get :: "(string \<times> real) list \<Rightarrow> string \<Rightarrow> real \<Rightarrow> real" where
  "dict_get m k d = (case map_of m k of None \<Rightarrow> d | Some v \<Rightarrow> v)"

definition calculate_token_risk_score ::
    "(string \<times> real) list \<Rightarrow> risk_row list option \<Rightarrow> token_risk" where
  "calculate_token_risk_score holder_metrics risk_results =
     (if holder_metrics = [] then \<lparr> token_risk_score = 0, risk_components = [] \<rparr>
      else
        let conc_score0 = min (dict_get holder_metrics ''top_10_ratio'' 0 * 1.25) 100;
            conc_score = (if dict_get holder_metrics ''gini_coefficient'' 0 > 0.9
                          then max conc_score0 90 else conc_score0);
            total_wallets = (case risk_results of None \<Rightarrow> 0 | Some rows \<Rightarrow> length rows);
            bot_count = (if total_wallets > 0
                         then length (filter (\<lambda>r. rr_bot_classification r = BOT) (the risk_results))
                         else 0);
            bot_ratio = (if total_wallets > 0 then real bot_count / real total_wallets else 0);
            bot_score = min (bot_ratio * 333) 100;
            wash_count = (if total_wallets > 0
                          then length (filter rr_is_wash_trading (the risk_results)) else 0);
            wash_ratio = (if total_wallets > 0 then real wash_count / real total_wallets else 0);
            wash_score = min (wash_ratio * 500) 100;
            final_token_score = (conc_score * 0.40) + (bot_score * 0.30) + (wash_score * 0.30)
        in \<lparr> token_risk_score = final_token_score,
              risk_components =
                [(''concentration_risk'', conc_score), (''bot_activity_risk'', bot_score),
                 (''wash_trading_risk'', wash_score), (''bot_ratio'', bot_ratio),
                 (''wash_ratio'', wash_ratio)] \<rparr>)"

subsection \<open>The scores in the words of the specification\<close>

text \<open>\<open>risk_score = bot_score \<sqdot> 50 + min(wash_flag_count \<sqdot> 15, 50)\<close>, clamped to
  \<open>[0, 100]\<close>, and the four levels.\<close>

definition spec_risk_score :: "real \<Rightarrow> nat \<Rightarrow> real" where
  "spec_risk_score bot_score wash_flag_count =
     max 0 (min (bot_score * 50 + real (min (wash_flag_count * 15) 50)) 100)"

definition spec_risk_level :: "real \<Rightarrow> risk_level" where
  "spec_risk_level score =
     (if score \<ge> 75 then CRITICAL else if score \<ge> 50 then HIGH
      else if score \<ge> 25 then MEDIUM else LOW)"

text \<open>The five tables that can flag a wallet, by name.\<close>

definition flagging_tables :: "wash_results \<Rightarrow> wallet \<Rightarrow> string set" where
  "flagging_tables results w =
     (if w \<in> self_transfer_wallets (self_transfers results) then {''self_transfers''} else {})
     \<union> (if w \<in> roundtrip_wallets (rapid_roundtrips results) then {''rapid_roundtrips''} else {})
     \<union> (if w \<in> pair_wallets (high_frequency_pairs results) then {''high_frequency_pairs''} else {})
     \<union> (if w \<in> cycle_wallets (circular_patterns results) then {''circular_patterns''} else {})
     \<union> (if w \<in> volume_wallets (volume_concentration results) then {''volume_concentration''} else {})"

text \<open>The token-level aggregate of the specification, on the top-10 ratio, the Gini
  coefficient and the shares of bot and wash-trading wallets.\<close>

definition spec_concentration_score :: "real \<Rightarrow> real \<Rightarrow> real" where
  "spec_concentration_score top_10 gini_value =
     (if gini_value > 0.9 then max (min (top_10 * 1.25) 100) 90 else min (top_10 * 1.25) 100)"

definition spec_token_risk_score :: "real \<Rightarrow> real \<Rightarrow> real \<Rightarrow> real \<Rightarrow> real" where
  "spec_token_risk_score top_10 gini_value bot_wallet_ratio wash_wallet_ratio =
     0.40 * spec_concentration_score top_10 gini_value
     + 0.30 * min (bot_wallet_ratio * 333) 100
     + 0.30 * min (wash_wallet_ratio * 500) 100"

definition bot_wallet_ratio :: "risk_row list \<Rightarrow> real" where
  "bot_wallet_ratio rows =
     (if rows = [] then 0
      else real (length (filter (\<lambda>r. rr_bot_classification r = BOT) rows)) / real (length rows))"

definition wash_wallet_ratio :: "risk_row list \<Rightarrow> real" where
  "wash_wallet_ratio rows =
     (if rows = [] then 0
      else real (length (filter rr_is_wash_trading rows)) / real (length rows))"

text \<open>The payloads of a wallet whose only payload is an intelligence record with a bot
  tag: its bot score is 0.30, below the threshold of a bot.\<close>

definition tagged_payloads :: wallet_payloads where
  "tagged_payloads =
     no_payloads\<lparr> wp_intelligence :=
       Some [\<lparr> cd_tags = [''MEV Bot''], cd_entityPredictions = False \<rparr>] \<rparr>"

subsection \<open>Example runs\<close>

text \<open>Two runs used as examples: the detector after \<^verbatim>\<open>run_all_analyses\<close> and the bot table
  of \<^verbatim>\<open>classify_wallets\<close>, on the one-way flows (threshold 5) and on the quick returns
  (threshold 1), every wallet having the bot-tagged payloads. The graph of the one-way
  flows has the single edge \<open>A \<rightarrow> B\<close> and no cycle; the graph of the quick returns has the
  edges \<open>A \<rightarrow> B\<close> and \<open>B \<rightarrow> A\<close>, hence the cycle \<open>[B, A]\<close>.\<close>

definition one_way_detector :: wash_detector where
  "one_way_detector = run_all_analyses no_cycles (new_detector one_way)"

definition one_way_bots :: "bot_row list" where
  "one_way_bots =
     (case classify_wallets (\<lambda>w. tagged_payloads) one_way 5 None of
        Inl e \<Rightarrow> [] | Inr rows \<Rightarrow> rows)"

definition quick_detector :: wash_detector where
  "quick_detector = run_all_analyses cycles_A_B (new_detector quick_returns)"

definition quick_bots :: "bot_row list" where
  "quick_bots =
     (case classify_wallets (\<lambda>w. tagged_payloads) quick_returns 1 None of
        Inl e \<Rightarrow> [] | Inr rows \<Rightarrow> rows)"

text \<open>The columns of a risk row that the scores are read from.\<close>

definition score_columns ::
    "risk_row \<Rightarrow> wallet \<times> bool \<times> bool \<times> classification \<times> real \<times> string list \<times> real \<times> risk_level" where
  "score_columns r =
     (rr_wallet r, rr_is_top_holder r, rr_is_wash_trading r, rr_bot_classification r,
      rr_bot_score r, rr_wash_trading_flags r, rr_risk_score r, rr_risk_level r)"

text \<open>Holder metrics of a concentrated token.\<close>

definition concentrated_metrics :: "(string \<times> real) list" where
  "concentrated_metrics =
     [(''top_3_ratio'', 40), (''top_10_ratio'', 50), (''whale_dominance'', 30),
      (''gini_coefficient'', 0.95)]"

chapter \<open>Properties\<close>

section \<open>Flow extraction\<close>

lemma flow_of_rows_self:
  "flow_of_rows h rows = Some f \<Longrightarrow> uf_is_self_transfer f = (uf_start_wallet f = uf_end_wallet f)"
  by (cases rows)
    (auto simp: flow_of_rows_def truthy_def split: prod.splits if_splits option.splits)

lemma in_process_transfers:
  "f \<in> set (process_transfers_to_user_flows df) \<Longrightarrow>
     \<exists>h \<in> set (tx_hashes df). group_flow h (tx_group df h) = Some f"
  by (auto simp: process_transfers_to_user_flows_def List.map_filter_def)

text \<open>
  Claim C9. Every flow emitted by the flow extractor has \<open>is_self_transfer\<close> true if and
  only if its start wallet equals its end wallet.
\<close>

theorem C9_is_self_transfer_iff:
  "\<forall>f \<in> set (process_transfers_to_user_flows df).
     uf_is_self_transfer f = (uf_start_wallet f = uf_end_wallet f)"
proof
  fix f assume "f \<in> set (process_transfers_to_user_flows df)"
  then obtain h where "group_flow h (tx_group df h) = Some f"
    using in_process_transfers by blast
  then show "uf_is_self_transfer f = (uf_start_wallet f = uf_end_wallet f)"
    unfolding group_flow_def by (rule flow_of_rows_self)
qed

theorem C9_is_self_transfer_iff_witness:
  "flow_A_C \<in> set (process_transfers_to_user_flows ordered_feed)
   \<and> uf_is_self_transfer flow_A_C = (uf_start_wallet flow_A_C = uf_end_wallet flow_A_C)"
proof -
  have mem: "flow_A_C \<in> set (process_transfers_to_user_flows ordered_feed)"
    by code_simp
  from C9_is_self_transfer_iff [of ordered_feed, THEN bspec, OF mem] mem
  show ?thesis by simp
qed

lemma sum_usd_sort_key: "sum_usd (sort_key k rows) = sum_usd rows"
proof -
  have "sum_usd (insort_key k r rs) = sum_usd (r # rs)" for r rs
    by (induction rs) (auto simp: sum_usd_def)
  then show ?thesis
    by (induction rows) (auto simp: sum_usd_def)
qed

text \<open>What an emitted flow holds: the two scanned addresses, both found and not empty,
  the USD values of all hops of the group and their number.\<close>

lemma group_flow_parts:
  assumes "group_flow h grp = Some f"
  shows "fst (scan_start (sort_key hop_blockNumber grp)) = Some (uf_start_wallet f)"
    and "fst (scan_end (sort_key hop_blockNumber grp)) = Some (uf_end_wallet f)"
    and "uf_start_wallet f \<noteq> []" and "uf_end_wallet f \<noteq> []"
    and "uf_usd_value f = sum_usd grp"
    and "uf_hop_count f = length grp"
proof -
  let ?rows = "sort_key hop_blockNumber grp"
  from assms have f: "flow_of_rows h ?rows = Some f" by (simp add: group_flow_def)
  then obtain r0 rs where rows: "?rows = r0 # rs"
    by (cases ?rows) (auto simp: flow_of_rows_def)
  obtain s st where s: "scan_start ?rows = (s, st)" by (cases "scan_start ?rows")
  obtain e et where e: "scan_end ?rows = (e, et)" by (cases "scan_end ?rows")
  from f have t: "truthy s" "truthy e"
    and val: "f = \<lparr> uf_transaction_hash = h, uf_start_wallet = the s, uf_end_wallet = the e,
                    uf_start_entity_type = st, uf_end_entity_type = et,
                    uf_timestamp = hop_timestamp r0, uf_block_number = hop_blockNumber r0,
                    uf_usd_value = sum_usd ?rows, uf_hop_count = length ?rows,
                    uf_is_self_transfer = (s = e) \<rparr>"
    unfolding flow_of_rows_def rows [symmetric] s e
    by (auto simp: rows split: if_splits)
  from t obtain a b where ab: "s = Some a" "a \<noteq> []" "e = Some b" "b \<noteq> []"
    by (auto simp: truthy_def split: option.splits)
  show "fst (scan_start ?rows) = Some (uf_start_wallet f)"
    and "fst (scan_end ?rows) = Some (uf_end_wallet f)"
    and "uf_start_wallet f \<noteq> []" and "uf_end_wallet f \<noteq> []"
    and "uf_usd_value f = sum_usd grp"
    and "uf_hop_count f = length grp"
    using ab by (simp_all add: val s e sum_usd_sort_key)
qed

text \<open>The forward scan stops at the first hop whose sender type is not an intermediary
  type, the backward scan at the last hop whose receiver type is not one.\<close>

lemma scan_start_first:
  "scan_start (pre @ r # post) = (from_address r, from_entity_type r)"
  if "\<forall>p \<in> set pre. from_is_intermediary p" and "\<not> from_is_intermediary r"
  using that by (induction pre) (auto simp: scan_start_def)

lemma scan_end_last:
  "scan_end (pre @ r # post) = (to_address r, to_entity_type r)"
  if "\<forall>p \<in> set post. to_is_intermediary p" and "\<not> to_is_intermediary r"
proof -
  have "List.find (\<lambda>r. \<not> to_is_intermediary r) (rev post @ r # rev pre) = Some r"
    using that by (induction post rule: rev_induct) auto
  then show ?thesis by (simp add: scan_end_def)
qed

text \<open>
  Claim C7, at a feed that lists the hops of a transaction latest first. The claim takes
  the hops by \<open>log_index\<close>: the flow is \<open>A \<rightarrow> C\<close>. The code orders them by
  \<^verbatim>\<open>blockNumber\<close>, which is the same for every hop of a transaction, so the feed's order
  stays and the flow comes out as the self-transfer \<open>B \<rightarrow> B\<close>.
\<close>

theorem C7_block_order_is_not_log_order:
  "map (\<lambda>f. (uf_start_wallet f, uf_end_wallet f, uf_is_self_transfer f, uf_usd_value f))
       (process_transfers_to_user_flows reversed_feed) = [(''B'', ''B'', True, 10)]
   \<and> map_option (\<lambda>f. (uf_start_wallet f, uf_end_wallet f, uf_is_self_transfer f, uf_usd_value f))
       (spec_group_flow ''tx1'' (tx_group reversed_feed ''tx1'')) = Some (''A'', ''C'', False, 10)
   \<and> map hop_log_index (sort_key hop_blockNumber (tx_group reversed_feed ''tx1'')) = [1, 0]"
  by code_simp

section \<open>Rapid round-trips\<close>

lemma foldl_add_sum_list:
  "foldl (\<lambda>c x. c + g x) n xs = n + sum_list (map g xs)" for n :: nat
  by (induction xs arbitrary: n) auto

lemma sum_list_map_insort_key:
  "sum_list (map g (insort_key k x xs)) = g x + sum_list (map g xs)" for g :: "'a \<Rightarrow> nat"
  by (induction xs) auto

lemma sum_list_map_sort_key:
  "sum_list (map g (sort_key k xs)) = sum_list (map g xs)" for g :: "'a \<Rightarrow> nat"
  by (induction xs) (auto simp: sum_list_map_insort_key)

lemma length_filter_sort_key:
  "length (filter P (sort_key k xs)) = length (filter P xs)"
  by (simp add: filter_sort)

lemma count_roundtrips_sorted:
  "count_roundtrips h (sort_key k xs) (sort_key k' ys) =
     sum_list (map (\<lambda>out. length (matching_returns h ys out)) xs)"
  by (simp add: count_roundtrips_def foldl_add_sum_list sum_list_map_sort_key
        matching_returns_def length_filter_sort_key)

lemma wallet_pair_start:
  "a \<le> b \<Longrightarrow> (wallet_pair f = (a, b) \<and> uf_start_wallet f = a)
       = (uf_start_wallet f = a \<and> uf_end_wallet f = b)"
  by (auto simp: wallet_pair_def min_def max_def)

lemma wallet_pair_end:
  "a \<le> b \<Longrightarrow> (wallet_pair f = (a, b) \<and> uf_start_wallet f = b)
       = (uf_start_wallet f = b \<and> uf_end_wallet f = a)"
  by (auto simp: wallet_pair_def min_def max_def split: if_splits)

lemma wallet_pair_ordered: "fst (wallet_pair f) \<le> snd (wallet_pair f)"
  by (simp add: wallet_pair_def min_le_iff_disj)

lemma filter_group_start:
  assumes "a \<le> b"
  shows "filter (\<lambda>f. uf_start_wallet f = a) (filter (\<lambda>f. wallet_pair f = (a, b)) flows)
         = filter (\<lambda>f. uf_start_wallet f = a \<and> uf_end_wallet f = b) flows"
  using wallet_pair_start [OF assms] by (simp add: conj_commute cong: filter_cong)

lemma filter_group_end:
  assumes "a \<le> b"
  shows "filter (\<lambda>f. uf_start_wallet f = b) (filter (\<lambda>f. wallet_pair f = (a, b)) flows)
         = filter (\<lambda>f. uf_start_wallet f = b \<and> uf_end_wallet f = a) flows"
  using wallet_pair_end [OF assms] by (simp add: conj_commute cong: filter_cong)

lemma matching_returns_spec:
  "matching_returns h (filter (\<lambda>g. uf_start_wallet g = b \<and> uf_end_wallet g = a) flows) f
     = spec_returns (3600 * h) flows a b f"
  by (auto simp: matching_returns_def spec_returns_def Let_def intro: filter_cong)

lemma group_count_spec:
  assumes "a \<le> b"
  shows "count_roundtrips h
           (sort_key uf_timestamp (filter (\<lambda>f. uf_start_wallet f = a) (filter (\<lambda>f. wallet_pair f = (a, b)) flows)))
           (sort_key uf_timestamp (filter (\<lambda>f. uf_start_wallet f = b) (filter (\<lambda>f. wallet_pair f = (a, b)) flows)))
         = spec_matched_count (3600 * h) flows a b"
  unfolding filter_group_start [OF assms] filter_group_end [OF assms]
  by (simp add: count_roundtrips_sorted matching_returns_spec spec_matched_count_def)

text \<open>A pair that reaches the threshold has a flow in each direction and at least two flows.\<close>

lemma spec_count_pos_start:
  "0 < spec_matched_count w flows a b \<Longrightarrow>
     filter (\<lambda>f. uf_start_wallet f = a \<and> uf_end_wallet f = b) flows \<noteq> []"
  by (auto simp: spec_matched_count_def)

lemma spec_count_pos_end:
  assumes "0 < spec_matched_count w flows a b"
  shows "filter (\<lambda>f. uf_start_wallet f = b \<and> uf_end_wallet f = a) flows \<noteq> []"
proof
  assume e: "filter (\<lambda>f. uf_start_wallet f = b \<and> uf_end_wallet f = a) flows = []"
  have "spec_returns w flows a b f = []" for f
    using e by (auto simp: spec_returns_def filter_empty_conv)
  then have "spec_matched_count w flows a b = 0"
    by (simp add: spec_matched_count_def)
  with assms show False by simp
qed

lemma short_group_count:
  assumes "length (filter (\<lambda>f. wallet_pair f = (a, b)) flows) < 2" and "a \<le> b"
  shows "spec_matched_count w flows a b = 0"
proof -
  let ?G = "filter (\<lambda>f. wallet_pair f = (a, b)) flows"
  let ?A = "filter (\<lambda>f. uf_start_wallet f = a) ?G"
  let ?B = "filter (\<lambda>f. uf_start_wallet f = b) ?G"
  have A: "filter (\<lambda>f. uf_start_wallet f = a \<and> uf_end_wallet f = b) flows = ?A"
    using filter_group_start [OF assms(2)] by simp
  have B: "filter (\<lambda>f. uf_start_wallet f = b \<and> uf_end_wallet f = a) flows = ?B"
    using filter_group_end [OF assms(2)] by simp
  have R: "spec_returns w flows a b f =
             filter (\<lambda>g. uf_timestamp f < uf_timestamp g \<and> uf_timestamp g \<le> uf_timestamp f + w) ?B" for f
    unfolding B [symmetric] by (auto simp: spec_returns_def intro: filter_cong)
  have S: "spec_matched_count w flows a b =
             sum_list (map (\<lambda>f. length (filter (\<lambda>g. uf_timestamp f < uf_timestamp g
                  \<and> uf_timestamp g \<le> uf_timestamp f + w) ?B)) ?A)"
    unfolding spec_matched_count_def A R ..
  from assms(1) consider "?G = []" | x where "?G = [x]"
    by (cases ?G; cases "tl ?G") auto
  then show ?thesis
  proof cases
    case 1
    then show ?thesis unfolding S by simp
  next
    case 2
    then show ?thesis unfolding S by simp
  qed
qed

lemma sort_key_eq_Nil: "sort_key k xs = [] \<longleftrightarrow> xs = []"
  by (metis length_sort length_0_conv)

lemma roundtrip_of_group_spec:
  assumes "a \<le> b"
  shows "roundtrip_of_group h (a, b) (filter (\<lambda>f. wallet_pair f = (a, b)) flows) =
           (if 2 \<le> spec_matched_count (3600 * h) flows a b then
              Some \<lparr> rt_wallet_a = a, rt_wallet_b = b,
                     rt_roundtrip_count = spec_matched_count (3600 * h) flows a b,
                     rt_total_transactions = length (filter (\<lambda>f. wallet_pair f = (a, b)) flows) \<rparr>
            else None)"
proof -
  let ?G = "filter (\<lambda>f. wallet_pair f = (a, b)) flows"
  let ?c = "spec_matched_count (3600 * h) flows a b"
  show ?thesis
  proof (cases "length ?G < 2")
    case True
    then have "?c = 0" using assms by (rule short_group_count)
    with True show ?thesis by (simp add: roundtrip_of_group_def)
  next
    case long: False
    show ?thesis
    proof (cases "filter (\<lambda>f. uf_start_wallet f = a) ?G = [] \<or> filter (\<lambda>f. uf_start_wallet f = b) ?G = []")
      case True
      have "\<not> 0 < ?c"
        using True spec_count_pos_start [of "3600 * h" flows a b]
          spec_count_pos_end [of "3600 * h" flows a b]
        unfolding filter_group_start [OF assms] filter_group_end [OF assms] by blast
      then have "?c = 0" by simp
      with long True show ?thesis
        using group_count_spec [OF assms, of h flows]
        by (simp add: roundtrip_of_group_def Let_def sort_key_eq_Nil del: filter_filter)
    next
      case False
      with long show ?thesis
        using group_count_spec [OF assms, of h flows]
        by (simp add: roundtrip_of_group_def Let_def sort_key_eq_Nil del: filter_filter)
    qed
  qed
qed

lemma in_set_map_filter:
  "y \<in> set (List.map_filter g xs) \<longleftrightarrow> (\<exists>x \<in> set xs. g x = Some y)"
  by (induction xs) (auto simp: List.map_filter_simps split: option.splits)

lemma roundtrip_table_iff:
  "row \<in> set (roundtrip_table h flows) \<longleftrightarrow>
     (\<exists>f \<in> set flows.
        roundtrip_of_group h (wallet_pair f) (filter (\<lambda>g. wallet_pair g = wallet_pair f) flows) = Some row)"
  by (auto simp: roundtrip_table_def pair_groups_def in_set_map_filter)

lemma roundtrip_row_spec:
  assumes "row \<in> set (roundtrip_table h flows)"
  shows "rt_wallet_a row \<le> rt_wallet_b row
       \<and> 2 \<le> spec_matched_count (3600 * h) flows (rt_wallet_a row) (rt_wallet_b row)
       \<and> rt_roundtrip_count row = spec_matched_count (3600 * h) flows (rt_wallet_a row) (rt_wallet_b row)
       \<and> rt_total_transactions row =
           length (filter (\<lambda>f. wallet_pair f = (rt_wallet_a row, rt_wallet_b row)) flows)"
proof -
  from assms obtain f where
    f: "roundtrip_of_group h (wallet_pair f) (filter (\<lambda>g. wallet_pair g = wallet_pair f) flows) = Some row"
    unfolding roundtrip_table_iff by blast
  obtain a b where p: "wallet_pair f = (a, b)" by (cases "wallet_pair f")
  have ab: "a \<le> b" using wallet_pair_ordered [of f] p by simp
  from f show ?thesis
    unfolding p roundtrip_of_group_spec [OF ab] using ab by (auto split: if_splits)
qed

lemma roundtrip_row_exists:
  assumes "a \<le> b" and "2 \<le> spec_matched_count (3600 * h) flows a b"
  shows "\<lparr> rt_wallet_a = a, rt_wallet_b = b,
           rt_roundtrip_count = spec_matched_count (3600 * h) flows a b,
           rt_total_transactions = length (filter (\<lambda>f. wallet_pair f = (a, b)) flows) \<rparr>
         \<in> set (roundtrip_table h flows)"
proof -
  from assms(2) have "0 < spec_matched_count (3600 * h) flows a b" by simp
  then have "filter (\<lambda>f. uf_start_wallet f = a \<and> uf_end_wallet f = b) flows \<noteq> []"
    by (rule spec_count_pos_start)
  then obtain f where f: "f \<in> set flows" "uf_start_wallet f = a" "uf_end_wallet f = b"
    by (auto simp: filter_empty_conv)
  then have p: "wallet_pair f = (a, b)"
    using assms(1) by (simp add: wallet_pair_def min_def max_def)
  show ?thesis
    unfolding roundtrip_table_iff
    using f(1) p roundtrip_of_group_spec [OF assms(1), of h flows] assms(2) by force
qed

text \<open>
  Claim C4, as the detector of \<^verbatim>\<open>wash_trading_detector.py\<close> implements it. For every
  canonical pair \<open>a \<le> b\<close> the table has a row for the pair exactly when the matched count
  of the specification, over the window of \<open>h\<close> hours, is at least 2; every row carries
  the canonical pair, that matched count and the number of flows of the pair. The row has
  no latency column.
\<close>

theorem C4_roundtrip_count_and_flag:
  "(\<forall>a b. a \<le> b \<longrightarrow>
      ((\<exists>row \<in> set (roundtrip_table h flows). rt_wallet_a row = a \<and> rt_wallet_b row = b)
         \<longleftrightarrow> 2 \<le> spec_matched_count (3600 * h) flows a b))
   \<and> (\<forall>row \<in> set (roundtrip_table h flows).
        rt_wallet_a row \<le> rt_wallet_b row
        \<and> rt_roundtrip_count row
            = spec_matched_count (3600 * h) flows (rt_wallet_a row) (rt_wallet_b row)
        \<and> rt_total_transactions row
            = length (filter (\<lambda>f. wallet_pair f = (rt_wallet_a row, rt_wallet_b row)) flows))"
proof (intro conjI allI impI ballI)
  fix a b :: wallet assume ab: "a \<le> b"
  show "(\<exists>row \<in> set (roundtrip_table h flows). rt_wallet_a row = a \<and> rt_wallet_b row = b)
         \<longleftrightarrow> 2 \<le> spec_matched_count (3600 * h) flows a b"
  proof
    assume "\<exists>row \<in> set (roundtrip_table h flows). rt_wallet_a row = a \<and> rt_wallet_b row = b"
    then show "2 \<le> spec_matched_count (3600 * h) flows a b"
      using roundtrip_row_spec by blast
  next
    assume "2 \<le> spec_matched_count (3600 * h) flows a b"
    from roundtrip_row_exists [OF ab this] show
      "\<exists>row \<in> set (roundtrip_table h flows). rt_wallet_a row = a \<and> rt_wallet_b row = b"
      by (rule bexI [rotated]) simp
  qed
next
  fix row assume "row \<in> set (roundtrip_table h flows)"
  from roundtrip_row_spec [OF this]
  show "rt_wallet_a row \<le> rt_wallet_b row"
    and "rt_roundtrip_count row
            = spec_matched_count (3600 * h) flows (rt_wallet_a row) (rt_wallet_b row)"
    and "rt_total_transactions row
            = length (filter (\<lambda>f. wallet_pair f = (rt_wallet_a row, rt_wallet_b row)) flows)"
    by simp_all
qed

theorem C4_roundtrip_count_and_flag_witness:
  "(''A'' :: wallet) \<le> ''B''
   \<and> 2 \<le> spec_matched_count (3600 * 24) quick_returns ''A'' ''B''
   \<and> (\<exists>row \<in> set (roundtrip_table 24 quick_returns).
         rt_wallet_a row = ''A'' \<and> rt_wallet_b row = ''B'')"
proof -
  have le: "(''A'' :: wallet) \<le> ''B''" by simp
  have cnt: "2 \<le> spec_matched_count (3600 * 24) quick_returns ''A'' ''B''" by code_simp
  from C4_roundtrip_count_and_flag [of 24 quick_returns, THEN conjunct1, rule_format, OF le] cnt
  have "\<exists>row \<in> set (roundtrip_table 24 quick_returns).
          rt_wallet_a row = ''A'' \<and> rt_wallet_b row = ''B''"
    by (rule iffD2)
  with le cnt show ?thesis by blast
qed

text \<open>
  The claim's last clause fails: two flow tables whose returns come after one hour and
  after three hours give the same finding, so the finding does not hold the minimum
  return latency.
\<close>

theorem C4_latency_not_recorded:
  "roundtrip_table 24 quick_returns = roundtrip_table 24 slow_returns
   \<and> roundtrip_table 24 quick_returns =
       [\<lparr> rt_wallet_a = ''A'', rt_wallet_b = ''B'', rt_roundtrip_count = 2,
          rt_total_transactions = 3 \<rparr>]
   \<and> spec_min_return_latency (3600 * 24) quick_returns ''A'' ''B'' = Some 3600
   \<and> spec_min_return_latency (3600 * 24) slow_returns ''A'' ''B'' = Some 10800"
  by code_simp

section \<open>The suspicious-wallet set\<close>

lemma foldl_cycle_rows_suspicious:
  "wd_suspicious_wallets
      (foldl (\<lambda>d' row. d'\<lparr> wd_suspicious_wallets :=
                              wd_suspicious_wallets d' \<union> set (cy_wallets row) \<rparr>) d rows)
   = wd_suspicious_wallets d \<union> cycle_wallets rows"
  by (induction rows arbitrary: d) (auto simp: cycle_wallets_def)

lemma foldl_cycle_rows_flows:
  "wd_user_flows
      (foldl (\<lambda>d' row. d'\<lparr> wd_suspicious_wallets :=
                              wd_suspicious_wallets d' \<union> set (cy_wallets row) \<rparr>) d rows)
   = wd_user_flows d"
  by (induction rows arbitrary: d) auto

lemma detect_self_transfers_state:
  "wd_suspicious_wallets (snd (detect_self_transfers d))
     = wd_suspicious_wallets d \<union> self_transfer_wallets (fst (detect_self_transfers d))"
  "wd_user_flows (snd (detect_self_transfers d)) = wd_user_flows d"
  by (simp_all add: detect_self_transfers_def self_transfer_wallets_def Let_def)

lemma detect_rapid_roundtrips_state:
  "wd_suspicious_wallets (snd (detect_rapid_roundtrips h d))
     = wd_suspicious_wallets d \<union> roundtrip_wallets (fst (detect_rapid_roundtrips h d))"
  "wd_user_flows (snd (detect_rapid_roundtrips h d)) = wd_user_flows d"
  by (auto simp: detect_rapid_roundtrips_def roundtrip_wallets_def Let_def)

lemma detect_high_frequency_pairs_state:
  "wd_suspicious_wallets (snd (detect_high_frequency_pairs m d))
     = wd_suspicious_wallets d \<union> pair_wallets (fst (detect_high_frequency_pairs m d))"
  "wd_user_flows (snd (detect_high_frequency_pairs m d)) = wd_user_flows d"
  by (auto simp: detect_high_frequency_pairs_def pair_wallets_def Let_def)

lemma detect_circular_patterns_state:
  "wd_suspicious_wallets (snd (detect_circular_patterns sc m d))
     = wd_suspicious_wallets d \<union> cycle_wallets (fst (detect_circular_patterns sc m d))"
  "wd_user_flows (snd (detect_circular_patterns sc m d)) = wd_user_flows d"
  by (simp_all add: detect_circular_patterns_def Let_def foldl_cycle_rows_suspicious
        foldl_cycle_rows_flows)

lemma analyze_volume_concentration_state:
  "snd (analyze_volume_concentration n d) = d"
  by (simp add: analyze_volume_concentration_def)

lemma detect_temporal_clustering_state:
  "snd (detect_temporal_clustering n d) = d"
  by (simp add: detect_temporal_clustering_def)

lemma run_all_analyses_unfold:
  "run_all_analyses sc d0 =
     (let p1 = detect_self_transfers d0;
          p2 = detect_rapid_roundtrips 24 (snd p1);
          p3 = detect_high_frequency_pairs 10 (snd p2);
          p4 = detect_circular_patterns sc 4 (snd p3);
          p5 = analyze_volume_concentration 20 (snd p4);
          p6 = detect_temporal_clustering 5 (snd p5)
      in (snd p6)\<lparr> wd_results :=
              \<lparr> self_transfers = fst p1, rapid_roundtrips = fst p2, high_frequency_pairs = fst p3,
                circular_patterns = fst p4, volume_concentration = fst p5,
                temporal_clustering = fst p6 \<rparr> \<rparr>)"
  by (simp add: run_all_analyses_def Let_def split: prod.splits)

lemma run_all_analyses_suspicious:
  "wd_suspicious_wallets (run_all_analyses sc d) =
     wd_suspicious_wallets d
     \<union> self_transfer_wallets (self_transfers (wd_results (run_all_analyses sc d)))
     \<union> roundtrip_wallets (rapid_roundtrips (wd_results (run_all_analyses sc d)))
     \<union> pair_wallets (high_frequency_pairs (wd_results (run_all_analyses sc d)))
     \<union> cycle_wallets (circular_patterns (wd_results (run_all_analyses sc d)))"
  by (simp add: run_all_analyses_unfold Let_def detect_self_transfers_state
        detect_rapid_roundtrips_state detect_high_frequency_pairs_state
        detect_circular_patterns_state analyze_volume_concentration_state
        detect_temporal_clustering_state)

text \<open>
  Claim C5. After \<^verbatim>\<open>run_all_analyses\<close> on a fresh detector the suspicious-wallet set is
  the union of the wallets of the self-transfer, round-trip, high-frequency and circular
  findings; a wallet of the volume-concentration table that is in none of these findings
  is not suspicious. (The temporal-clustering table has no wallet column.)
\<close>

theorem C5_suspicious_wallets_union:
  "wd_suspicious_wallets (run_all_analyses sc (new_detector flows))
     = flagged_wallets (wd_results (run_all_analyses sc (new_detector flows)))
   \<and> (\<forall>w. w \<in> volume_wallets (volume_concentration (wd_results (run_all_analyses sc (new_detector flows))))
          \<and> w \<notin> flagged_wallets (wd_results (run_all_analyses sc (new_detector flows)))
        \<longrightarrow> w \<notin> wd_suspicious_wallets (run_all_analyses sc (new_detector flows)))"
proof -
  have "wd_suspicious_wallets (new_detector flows) = {}"
    by (simp add: new_detector_def)
  then have "wd_suspicious_wallets (run_all_analyses sc (new_detector flows))
     = flagged_wallets (wd_results (run_all_analyses sc (new_detector flows)))"
    using run_all_analyses_suspicious [of sc "new_detector flows"]
    by (simp add: flagged_wallets_def)
  then show ?thesis by simp
qed

theorem C5_suspicious_wallets_union_witness:
  "''A'' \<in> volume_wallets (volume_concentration (wd_results (run_all_analyses no_cycles (new_detector one_way))))
   \<and> ''A'' \<notin> flagged_wallets (wd_results (run_all_analyses no_cycles (new_detector one_way)))
   \<and> ''A'' \<notin> wd_suspicious_wallets (run_all_analyses no_cycles (new_detector one_way))"
proof -
  have v: "''A'' \<in> volume_wallets (volume_concentration (wd_results (run_all_analyses no_cycles (new_detector one_way))))"
    by code_simp
  have f: "''A'' \<notin> flagged_wallets (wd_results (run_all_analyses no_cycles (new_detector one_way)))"
    by code_simp
  from C5_suspicious_wallets_union [of no_cycles one_way, THEN conjunct2, rule_format, of "''A''"] v f
  show ?thesis by blast
qed

section \<open>Bot detection\<close>

text \<open>
  Claim C6, at a wallet none of whose payloads arrived, against the same wallet with a
  flow payload of 100 USD in and nothing out. Without the payload \<^verbatim>\<open>flow_balance_ratio\<close>
  is not set, the scorer reads the default 0, the rule \<^verbatim>\<open>abs(ratio) < 0.1\<close> fires, and
  the flow category earns its single point: the bot score is 0.05. With the payload the
  ratio is 1 and the score is 0.
\<close>

theorem C6_absent_flow_payload_scores:
  "flow_balance_ratio (extract_features [''W'' \<mapsto> no_payloads] ''W'') = None
   \<and> flow_score (extract_features [''W'' \<mapsto> no_payloads] ''W'') = 1
   \<and> fst (calculate_bot_score (extract_features [''W'' \<mapsto> no_payloads] ''W'')) = 1 / 20
   \<and> snd (calculate_bot_score (extract_features [''W'' \<mapsto> no_payloads] ''W'')) = [''balanced_flow'']
   \<and> flow_balance_ratio
         (extract_features [''W'' \<mapsto> no_payloads\<lparr> wp_flow := Some inflow_only \<rparr>] ''W'') = Some 1
   \<and> flow_score
         (extract_features [''W'' \<mapsto> no_payloads\<lparr> wp_flow := Some inflow_only \<rparr>] ''W'') = 0
   \<and> fst (calculate_bot_score
           (extract_features [''W'' \<mapsto> no_payloads\<lparr> wp_flow := Some inflow_only \<rparr>] ''W'')) = 0"
  by code_simp

text \<open>The categories one by one. Every extraction step leaves the scores of the other
  categories as they are, so an absent payload leaves its category at the score of the
  empty feature dictionary: 0 for timing, value patterns, counterparties, intelligence and
  portfolio, and 1 for the flow balance.\<close>

lemma counterparties_features_keeps:
  "timing_score (counterparties_features p fs) = timing_score fs"
  "pattern_score (counterparties_features p fs) = pattern_score fs"
  "intel_score (counterparties_features p fs) = intel_score fs"
  "port_score (counterparties_features p fs) = port_score fs"
  "flow_score (counterparties_features p fs) = flow_score fs"
  by (simp_all add: counterparties_features_def timing_score_def pattern_score_def intel_score_def
        port_score_def flow_score_def Let_def split: option.splits list.splits)

lemma intelligence_features_keeps:
  "timing_score (intelligence_features p fs) = timing_score fs"
  "pattern_score (intelligence_features p fs) = pattern_score fs"
  "cp_score (intelligence_features p fs) = cp_score fs"
  "port_score (intelligence_features p fs) = port_score fs"
  "flow_score (intelligence_features p fs) = flow_score fs"
  by (simp_all add: intelligence_features_def timing_score_def pattern_score_def cp_score_def
        port_score_def flow_score_def Let_def split: option.splits)

lemma balances_features_keeps:
  "timing_score (balances_features p fs) = timing_score fs"
  "pattern_score (balances_features p fs) = pattern_score fs"
  "cp_score (balances_features p fs) = cp_score fs"
  "intel_score (balances_features p fs) = intel_score fs"
  "flow_score (balances_features p fs) = flow_score fs"
  by (simp_all add: balances_features_def timing_score_def pattern_score_def cp_score_def
        intel_score_def flow_score_def Let_def split: option.splits)

lemma flow_features_keeps:
  "timing_score (flow_features p fs) = timing_score fs"
  "pattern_score (flow_features p fs) = pattern_score fs"
  "cp_score (flow_features p fs) = cp_score fs"
  "intel_score (flow_features p fs) = intel_score fs"
  "port_score (flow_features p fs) = port_score fs"
  by (simp_all add: flow_features_def timing_score_def pattern_score_def cp_score_def
        intel_score_def port_score_def Let_def split: option.splits prod.splits)

lemma transfers_features_keeps:
  "cp_score (transfers_features p fs) = cp_score fs"
  "intel_score (transfers_features p fs) = intel_score fs"
  "port_score (transfers_features p fs) = port_score fs"
  "flow_score (transfers_features p fs) = flow_score fs"
  by (simp_all add: transfers_features_def cp_score_def
        intel_score_def port_score_def flow_score_def Let_def split: option.splits)

lemma no_features_scores:
  "timing_score no_features = 0" "pattern_score no_features = 0" "cp_score no_features = 0"
  "intel_score no_features = 0" "port_score no_features = 0" "flow_score no_features = 1"
  by (simp_all add: no_features_def timing_score_def pattern_score_def cp_score_def
        intel_score_def port_score_def flow_score_def get_or_def lt_f_def gt_f_def)

lemmas features_keep = counterparties_features_keeps intelligence_features_keeps
  balances_features_keeps flow_features_keeps transfers_features_keeps

lemma absent_payload_scores:
  assumes "wallet_data w = Some data"
  shows "wp_transfers data = None \<Longrightarrow>
           timing_score (extract_features wallet_data w) = 0
           \<and> pattern_score (extract_features wallet_data w) = 0"
    and "wp_counterparties data = None \<Longrightarrow> cp_score (extract_features wallet_data w) = 0"
    and "wp_intelligence data = None \<Longrightarrow> intel_score (extract_features wallet_data w) = 0"
    and "wp_balances data = None \<Longrightarrow> port_score (extract_features wallet_data w) = 0"
    and "wp_flow data = None \<Longrightarrow> flow_score (extract_features wallet_data w) = 1"
proof -
  show "wp_transfers data = None \<Longrightarrow>
           timing_score (extract_features wallet_data w) = 0
           \<and> pattern_score (extract_features wallet_data w) = 0"
    using assms by (simp add: extract_features_def features_keep no_features_scores transfers_features_def)
  show "wp_counterparties data = None \<Longrightarrow> cp_score (extract_features wallet_data w) = 0"
    using assms by (simp add: extract_features_def features_keep no_features_scores counterparties_features_def)
  show "wp_intelligence data = None \<Longrightarrow> intel_score (extract_features wallet_data w) = 0"
    using assms by (simp add: extract_features_def features_keep no_features_scores intelligence_features_def)
  show "wp_balances data = None \<Longrightarrow> port_score (extract_features wallet_data w) = 0"
    using assms by (simp add: extract_features_def features_keep no_features_scores balances_features_def)
  show "wp_flow data = None \<Longrightarrow> flow_score (extract_features wallet_data w) = 1"
    using assms by (simp add: extract_features_def features_keep no_features_scores flow_features_def)
qed

lemma set_unique: "set (unique xs) = set xs"
  by (simp add: unique_def)

lemma value_counts_keys: "fst ` set (value_counts xs) = set xs"
  by (force simp: value_counts_def set_unique)

lemma all_wallets_keys: "fst ` set (all_wallets flows) \<subseteq> set (map uf_start_wallet flows)"
proof -
  have "fst ` set (map2 (\<lambda>(w, n) (w', m). (w, n + m)) xs ys) \<subseteq> fst ` set xs"
    for xs ys :: "(wallet \<times> nat) list"
    by (auto dest!: set_zip_leftD split: prod.splits) force
  then show ?thesis
    unfolding all_wallets_def Let_def
    using value_counts_keys [of "map uf_start_wallet flows"]
    by (simp del: set_map) blast
qed

lemma eligible_wallets_start:
  "set (eligible_wallets flows m s) \<subseteq> set (map uf_start_wallet flows)"
proof -
  have "set (map fst (filter (\<lambda>(w, n). int n \<ge> m) (all_wallets flows))) \<subseteq> fst ` set (all_wallets flows)"
    by auto
  moreover have "set (eligible_wallets flows m s)
                   \<subseteq> set (map fst (filter (\<lambda>(w, n). int n \<ge> m) (all_wallets flows)))"
    by (auto simp: eligible_wallets_def Let_def split: option.splits dest: in_set_takeD)
  ultimately show ?thesis using all_wallets_keys [of flows] by blast
qed

lemma classify_wallet_wallet [simp]: "br_wallet (classify_wallet flows wallet_data w) = w"
  by (simp add: classify_wallet_def Let_def split: prod.splits)

lemma classify_wallets_rows:
  "classify_wallets fetch flows m s = Inr rows \<Longrightarrow>
     map br_wallet rows = map br_wallet (sort_key (\<lambda>r. - br_bot_score r)
        (map (classify_wallet flows (\<lambda>w. if w \<in> set (eligible_wallets flows m s) then Some (fetch w) else None))
           (eligible_wallets flows m s)))"
  by (auto simp: classify_wallets_def Let_def batch_fetch_wallet_data_def
        split: sum.splits if_splits)

lemma classify_wallets_wallets:
  assumes "classify_wallets fetch flows m s = Inr rows"
  shows "set (map br_wallet rows) = set (eligible_wallets flows m s)"
proof -
  have "set (map br_wallet rows) = br_wallet ` set (map (classify_wallet flows (\<lambda>w. if w \<in> set (eligible_wallets flows m s) then Some (fetch w) else None))
           (eligible_wallets flows m s))"
    unfolding classify_wallets_rows [OF assms] by simp
  also have "\<dots> = set (eligible_wallets flows m s)"
    by (simp add: image_image)
  finally show ?thesis .
qed

text \<open>
  Claim C10. A wallet that is the start wallet of no flow is not eligible, whatever the
  threshold and the sample size, and no row of the classification table is about it.
\<close>

theorem C10_only_start_wallets_classified:
  "w \<notin> set (map uf_start_wallet flows) \<Longrightarrow>
     w \<notin> set (eligible_wallets flows min_transactions sample_size)
     \<and> (\<forall>rows. classify_wallets fetch flows min_transactions sample_size = Inr rows
           \<longrightarrow> w \<notin> set (map br_wallet rows))"
  using eligible_wallets_start [of flows min_transactions sample_size]
    classify_wallets_wallets [of fetch flows min_transactions sample_size]
  by blast

theorem C10_only_start_wallets_classified_witness:
  "''B'' \<notin> set (map uf_start_wallet one_way)
   \<and> count_list (map uf_end_wallet one_way) ''B'' = 5
   \<and> ''B'' \<notin> set (eligible_wallets one_way 0 None)
   \<and> (\<exists>rows. classify_wallets (\<lambda>w. no_payloads) one_way 0 None = Inr rows
         \<and> rows \<noteq> [] \<and> ''B'' \<notin> set (map br_wallet rows))"
proof -
  have start: "''B'' \<notin> set (map uf_start_wallet one_way)" by code_simp
  have received: "count_list (map uf_end_wallet one_way) ''B'' = 5" by code_simp
  have run: "classify_wallets (\<lambda>w. no_payloads) one_way 0 None =
      Inr [classify_wallet one_way (\<lambda>w. if w \<in> set [''A''] then Some no_payloads else None) ''A'']"
    by code_simp
  from C10_only_start_wallets_classified [OF start, of 0 None "\<lambda>w. no_payloads"] run
  have "''B'' \<notin> set (eligible_wallets one_way 0 None)"
    and "''B'' \<notin> set (map br_wallet
      [classify_wallet one_way (\<lambda>w. if w \<in> set [''A''] then Some no_payloads else None) ''A''])"
    by blast+
  with start received run show ?thesis by blast
qed

section \<open>The Gini coefficient\<close>

lemma sum_list_map2_nth:
  fixes f :: "'a \<Rightarrow> 'b \<Rightarrow> real"
  assumes "length xs = length ys"
  shows "sum_list (map2 f xs ys) = (\<Sum>i < length ys. f (xs ! i) (ys ! i))"
proof -
  have "sum_list (map2 f xs ys) = (\<Sum>i = 0 ..< length (map2 f xs ys). map2 f xs ys ! i)"
    by (rule sum_list_sum_nth)
  also have "\<dots> = (\<Sum>i < length ys. f (xs ! i) (ys ! i))"
    using assms by (intro sum.cong) (auto simp: lessThan_atLeast0)
  finally show ?thesis .
qed

lemma sum_ranks_shift:
  fixes g :: "nat \<Rightarrow> real \<Rightarrow> real"
  shows "(\<Sum>i = 1..n. g i (x ! (i - 1))) = (\<Sum>i < n. g (Suc i) (x ! i))"
  by (rule sum.reindex_bij_witness [of _ Suc "\<lambda>i. i - 1"]) auto

lemma gini_numerator:
  "sum_list (map2 (\<lambda>i x. 2 * i * x) (map (\<lambda>i. real (i + 1)) [0 ..< length s]) s)
     = 2 * (\<Sum>i = 1..length s. real i * s ! (i - 1))"
proof -
  have "sum_list (map2 (\<lambda>i x. 2 * i * x) (map (\<lambda>i. real (i + 1)) [0 ..< length s]) s)
          = (\<Sum>i < length s. 2 * real (Suc i) * s ! i)"
    by (subst sum_list_map2_nth) simp_all
  also have "\<dots> = 2 * (\<Sum>i < length s. real (Suc i) * s ! i)"
    by (simp only: sum_distrib_left mult.assoc)
  also have "(\<Sum>i < length s. real (Suc i) * s ! i) = (\<Sum>i = 1..length s. real i * s ! (i - 1))"
    by (rule sum_ranks_shift [symmetric])
  finally show ?thesis .
qed

lemma gini_denominator:
  "sum_list s = (\<Sum>i = 1..length s. s ! (i - 1))" for s :: "real list"
proof -
  have "sum_list s = (\<Sum>i < length s. s ! i)"
    by (simp add: sum_list_sum_nth lessThan_atLeast0)
  also have "\<dots> = (\<Sum>i = 1..length s. s ! (i - 1))"
    using sum_ranks_shift [of "\<lambda>i v. v" s "length s"] by simp
  finally show ?thesis .
qed

lemma sum_list_sort: "sum_list (sort xs) = sum_list xs" for xs :: "real list"
proof -
  have "sum_list (insort x ys) = x + sum_list ys" for x and ys :: "real list"
    by (induction ys) auto
  then show ?thesis by (induction xs) auto
qed

lemma gini_spec:
  assumes "holdings \<noteq> []"
  shows "gini holdings =
           (if sum_list holdings = 0 then None else Some (spec_gini holdings))"
proof -
  let ?s = "sort holdings"
  have n: "length ?s = length holdings" by simp
  have pos: "length holdings \<noteq> 0" using assms by simp
  have num: "sum_list (map2 (\<lambda>i x. 2 * i * x) (map (\<lambda>i. real (i + 1)) [0 ..< length holdings]) ?s)
               = 2 * (\<Sum>i = 1..length holdings. real i * ?s ! (i - 1))"
    using gini_numerator [of ?s] by simp
  have den: "sum_list ?s = (\<Sum>i = 1..length holdings. ?s ! (i - 1))"
    using gini_denominator [of ?s] by simp
  show ?thesis
  proof (cases "sum_list holdings = 0")
    case True
    then show ?thesis using pos by (simp add: gini_def Let_def sum_list_sort sort_key_eq_Nil)
  next
    case False
    then have "sum_list ?s \<noteq> 0" by (simp add: sum_list_sort)
    moreover have "(\<Sum>i = 1..length holdings. ?s ! (i - 1)) = sum_list holdings"
      using den by (simp add: sum_list_sort)
    ultimately show ?thesis
      using False pos unfolding gini_def spec_gini_def Let_def n num
      by (simp add: sum_list_sort)
  qed
qed

lemma sum_ranks: "(\<Sum>i = 1..n. real i) = real n * (real n + 1) / 2"
  by (induction n) (auto simp: field_simps)

lemma sort_replicate: "sort (replicate n x) = replicate n x" for x :: real
  by (induction n) (auto simp: insort_is_Cons)

lemma spec_gini_equal:
  assumes "0 < n" and "x \<noteq> 0"
  shows "spec_gini (replicate n x) = 0"
proof -
  have "(\<Sum>i = 1..n. real i * replicate n x ! (i - 1)) = (\<Sum>i = 1..n. real i * x)"
    by (intro sum.cong) auto
  then have a: "(\<Sum>i = 1..n. real i * replicate n x ! (i - 1)) = real n * (real n + 1) / 2 * x"
    using sum_ranks [of n] by (simp add: sum_distrib_right [symmetric])
  have "(\<Sum>i = 1..n. replicate n x ! (i - 1)) = (\<Sum>i = 1..n. x)"
    by (intro sum.cong) auto
  then have b: "(\<Sum>i = 1..n. replicate n x ! (i - 1)) = real n * x"
    by simp
  have "spec_gini (replicate n x)
          = (2 * (real n * (real n + 1) / 2 * x)) / (real n * (real n * x)) - (real n + 1) / real n"
    unfolding spec_gini_def Let_def sort_replicate length_replicate a b ..
  also have "\<dots> = 0"
    using assms by (simp add: field_simps)
  finally show ?thesis .
qed

lemma equal_shares_replicate:
  assumes "\<forall>y \<in> set xs. y = x"
  shows "xs = replicate (length xs) x"
  using assms by (induction xs) auto

text \<open>
  Claim C8. For a non-empty holder table the Gini coefficient is the formula of the
  specification on the holding shares (and is not finite exactly when the shares sum to
  zero); it is 0 when all holders have the same positive share.
\<close>

theorem C8_gini_formula:
  assumes "df \<noteq> []"
  shows "gini_coefficient (calculate_concentration_metrics (Some df)) =
           (if sum_list (map h_Holding_pct df) = 0 then None
            else Some (spec_gini (map h_Holding_pct df)))
       \<and> (\<forall>x. 0 < x \<and> (\<forall>h \<in> set df. h_Holding_pct h = x)
              \<longrightarrow> gini_coefficient (calculate_concentration_metrics (Some df)) = Some 0)"
proof -
  from assms obtain h hs where df: "df = h # hs" by (cases df) auto
  have g: "gini_coefficient (calculate_concentration_metrics (Some df)) = gini (map h_Holding_pct df)"
    by (simp add: df calculate_concentration_metrics_def)
  have ne: "map h_Holding_pct df \<noteq> []" using assms by simp
  have first: "gini (map h_Holding_pct df) =
           (if sum_list (map h_Holding_pct df) = 0 then None
            else Some (spec_gini (map h_Holding_pct df)))"
    by (rule gini_spec [OF ne])
  have second: "gini (map h_Holding_pct df) = Some 0"
    if x: "0 < x" and all: "\<forall>h \<in> set df. h_Holding_pct h = x" for x
  proof -
    from all have "\<forall>y \<in> set (map h_Holding_pct df). y = x" by auto
    then have rep: "map h_Holding_pct df = replicate (length df) x"
      using equal_shares_replicate [of "map h_Holding_pct df" x] by simp
    have n: "0 < length df" using assms by simp
    from n x have "sum_list (replicate (length df) x) \<noteq> 0"
      by (simp add: sum_list_replicate)
    moreover have "spec_gini (replicate (length df) x) = 0"
      using n x by (intro spec_gini_equal) auto
    ultimately show ?thesis using first unfolding rep by simp
  qed
  from first second show ?thesis unfolding g by blast
qed

theorem C8_gini_formula_witness:
  "map equal_holder [1, 2, 3, 4] \<noteq> []
   \<and> (0 :: real) < 25
   \<and> list_all (\<lambda>h. h_Holding_pct h = 25) (map equal_holder [1, 2, 3, 4])
   \<and> gini_coefficient (calculate_concentration_metrics (Some (map equal_holder [1, 2, 3, 4]))) = Some 0"
proof -
  have ne: "map equal_holder [1, 2, 3, 4] \<noteq> []" by simp
  have eq: "\<forall>h \<in> set (map equal_holder [1, 2, 3, 4]). h_Holding_pct h = 25"
    by (simp add: equal_holder_def)
  from C8_gini_formula [OF ne, THEN conjunct2, rule_format, of 25] eq
  have "gini_coefficient (calculate_concentration_metrics (Some (map equal_holder [1, 2, 3, 4]))) = Some 0"
    by simp
  with ne eq show ?thesis by (simp add: list_all_iff)
qed


section \<open>Risk fusion\<close>

lemma in_create_risk_analysis:
  "r \<in> set (create_risk_analysis bot_results d top_holders) \<Longrightarrow>
     \<exists>w. r = risk_row_of bot_results d (set top_holders) w"
  by (auto simp: create_risk_analysis_def Let_def)

lemma wash_flags_set: "set (wash_flags results w) = flagging_tables results w"
  by (auto simp: wash_flags_def flagging_tables_def self_transfer_wallets_def
        roundtrip_wallets_def pair_wallets_def cycle_wallets_def volume_wallets_def
        list_ex_iff)

lemma wash_flags_distinct: "distinct (wash_flags results w)"
  by (simp add: wash_flags_def)

lemma wash_flags_count: "length (wash_flags results w) = card (flagging_tables results w)"
  using distinct_card [OF wash_flags_distinct, of results w] by (simp add: wash_flags_set)

lemma risk_row_of_columns:
  "rr_wallet (risk_row_of B d T w) = w"
  "rr_is_wash_trading (risk_row_of B d T w) = (w \<in> wd_suspicious_wallets d)"
  "rr_is_top_holder (risk_row_of B d T w) = (w \<in> T)"
  "rr_wash_trading_flags (risk_row_of B d T w) = wash_flags (wd_results d) w"
  "rr_wash_flag_count (risk_row_of B d T w) = length (wash_flags (wd_results d) w)"
  by (simp_all add: risk_row_of_def Let_def split: prod.splits)

lemma risk_row_of_score:
  "(rr_risk_level (risk_row_of B d T w), rr_risk_score (risk_row_of B d T w)) =
     calculate_risk_level (rr_bot_score (risk_row_of B d T w))
       (rr_bot_classification (risk_row_of B d T w)) (rr_is_wash_trading (risk_row_of B d T w))
       (rr_wash_flag_count (risk_row_of B d T w)) (rr_is_top_holder (risk_row_of B d T w))"
  by (simp add: risk_row_of_def Let_def split: prod.splits)

lemma calculate_risk_level_level:
  "fst (calculate_risk_level b c wt k t) = spec_risk_level (snd (calculate_risk_level b c wt k t))"
  by (simp add: calculate_risk_level_def spec_risk_level_def Let_def)

lemma calculate_risk_level_plain:
  "snd (calculate_risk_level b c wt k False) =
     min (b * 50 + (if wt then real (min (k * 15) 50) else 0)) 100"
  by (simp add: calculate_risk_level_def Let_def)

lemma calculate_risk_level_whale:
  "snd (calculate_risk_level b c wt k True) =
     (if wt \<or> c = BOT then 100 else min (b * 50 + 20) 100)"
  by (simp add: calculate_risk_level_def Let_def)

lemma spec_risk_score_agrees:
  "0 \<le> b \<Longrightarrow> wt \<or> k = 0 \<Longrightarrow> snd (calculate_risk_level b c wt k False) = spec_risk_score b k"
  by (auto simp: calculate_risk_level_def spec_risk_score_def Let_def min_def max_def)

text \<open>The bot score of \<^verbatim>\<open>calculate_bot_score\<close> lies between 0 and 1, so does every score of
  the table of \<^verbatim>\<open>classify_wallets\<close>, and a wallet without a bot row has the score 0: with
  that table the bot score of a risk row is never negative and the risk score of a wallet
  that is not a top holder lies between 0 and 100.\<close>

lemma category_score_bounds:
  "0 \<le> timing_score fs" "timing_score fs \<le> 5"
  "0 \<le> pattern_score fs" "pattern_score fs \<le> 3"
  "0 \<le> cp_score fs" "cp_score fs \<le> 4"
  "0 \<le> intel_score fs" "intel_score fs \<le> 3"
  "0 \<le> port_score fs" "port_score fs \<le> 2"
  "0 \<le> flow_score fs" "flow_score fs \<le> 1"
  by (simp_all add: timing_score_def pattern_score_def cp_score_def intel_score_def
        port_score_def flow_score_def)

lemma calculate_bot_score_range:
  "0 \<le> fst (calculate_bot_score fs)" "fst (calculate_bot_score fs) \<le> 1"
  using category_score_bounds [of fs]
  by (simp_all add: calculate_bot_score_def Let_def)

lemma classify_wallet_score_range:
  "0 \<le> br_bot_score (classify_wallet flows wallet_data w)"
  "br_bot_score (classify_wallet flows wallet_data w) \<le> 1"
  using calculate_bot_score_range [of "extract_features wallet_data w"]
  by (auto simp: classify_wallet_def Let_def split: prod.splits)

lemma classify_wallets_score_range:
  assumes "classify_wallets fetch flows m s = Inr rows" and "b \<in> set rows"
  shows "0 \<le> br_bot_score b \<and> br_bot_score b \<le> 1"
proof -
  from assms obtain wallet_data w where "b = classify_wallet flows wallet_data w"
    by (auto simp: classify_wallets_def Let_def split: sum.splits)
  then show ?thesis using classify_wallet_score_range by simp
qed

lemma risk_row_bot_score_nonneg:
  assumes "\<forall>b \<in> set bot_results. 0 \<le> br_bot_score b"
    and "r \<in> set (create_risk_analysis bot_results d top_holders)"
  shows "0 \<le> rr_bot_score r"
proof -
  from assms(2) obtain w where r: "r = risk_row_of bot_results d (set top_holders) w"
    using in_create_risk_analysis by blast
  show ?thesis
  proof (cases "List.find (\<lambda>b. br_wallet b = w) bot_results")
    case None
    then show ?thesis by (simp add: r risk_row_of_def Let_def split: prod.splits)
  next
    case (Some b)
    then have "b \<in> set bot_results" by (auto simp: find_Some_iff)
    with assms(1) have "0 \<le> br_bot_score b" by blast
    with Some show ?thesis by (simp add: r risk_row_of_def Let_def split: prod.splits)
  qed
qed

lemma plain_risk_score_range:
  "0 \<le> b \<Longrightarrow> 0 \<le> snd (calculate_risk_level b c wt k False)
     \<and> snd (calculate_risk_level b c wt k False) \<le> 100"
  by (simp add: calculate_risk_level_def Let_def)

lemma classified_risk_score_range:
  assumes "classify_wallets fetch flows m s = Inr bot_results"
    and "r \<in> set (create_risk_analysis bot_results d top_holders)"
    and "\<not> rr_is_top_holder r"
  shows "0 \<le> rr_bot_score r \<and> 0 \<le> rr_risk_score r \<and> rr_risk_score r \<le> 100"
proof -
  have "\<forall>b \<in> set bot_results. 0 \<le> br_bot_score b"
    using classify_wallets_score_range [OF assms(1)] by blast
  then have nonneg: "0 \<le> rr_bot_score r"
    using assms(2) by (rule risk_row_bot_score_nonneg)
  from assms(2) obtain w where r: "r = risk_row_of bot_results d (set top_holders) w"
    using in_create_risk_analysis by blast
  have "rr_risk_score r =
      snd (calculate_risk_level (rr_bot_score r) (rr_bot_classification r) (rr_is_wash_trading r)
             (rr_wash_flag_count r) (rr_is_top_holder r))"
    using risk_row_of_score [of bot_results d "set top_holders" w, symmetric] unfolding r by simp
  with assms(3) have "rr_risk_score r =
      snd (calculate_risk_level (rr_bot_score r) (rr_bot_classification r) (rr_is_wash_trading r)
             (rr_wash_flag_count r) False)"
    by simp
  with nonneg plain_risk_score_range [OF nonneg] show ?thesis by simp
qed

text \<open>
  Claim C1, as the code computes it. The claim's formula adds the wash-flag term for every
  wallet. The code adds it only for a wallet of the suspicious set, while the flag count
  also counts the volume-concentration table, which puts no wallet into that set; and a
  top holder is scored by the whale rule. For every row of the risk table:
  \<^item> \<open>is_wash_trading\<close> is membership in the suspicious set, and \<open>wash_flag_count\<close> is the
    number of the five wallet tables that hold the wallet;
  \<^item> unless the wallet is a top holder, the score is \<open>bot_score \<sqdot> 50\<close>, plus
    \<open>min(wash_flag_count \<sqdot> 15, 50)\<close> when the wallet is suspicious, capped at 100;
  \<^item> that is the claim's clamped formula whenever the bot score is not negative and the
    wallet is suspicious or has no flag;
  \<^item> the level is CRITICAL from 75, HIGH from 50, MEDIUM from 25, and LOW below.
\<close>

theorem C1_risk_score_gated:
  "\<forall>r \<in> set (create_risk_analysis bot_results d top_holders).
     rr_is_wash_trading r = (rr_wallet r \<in> wd_suspicious_wallets d)
   \<and> rr_wash_flag_count r = card (flagging_tables (wd_results d) (rr_wallet r))
   \<and> (\<not> rr_is_top_holder r \<longrightarrow>
        rr_risk_score r =
          min (rr_bot_score r * 50
               + (if rr_is_wash_trading r then real (min (rr_wash_flag_count r * 15) 50) else 0)) 100)
   \<and> (\<not> rr_is_top_holder r \<and> 0 \<le> rr_bot_score r
        \<and> (rr_is_wash_trading r \<or> rr_wash_flag_count r = 0) \<longrightarrow>
        rr_risk_score r = spec_risk_score (rr_bot_score r) (rr_wash_flag_count r))
   \<and> rr_risk_level r = spec_risk_level (rr_risk_score r)"
proof
  fix r assume "r \<in> set (create_risk_analysis bot_results d top_holders)"
  then obtain w where r: "r = risk_row_of bot_results d (set top_holders) w"
    using in_create_risk_analysis by blast
  have sc: "rr_risk_score r =
      snd (calculate_risk_level (rr_bot_score r) (rr_bot_classification r) (rr_is_wash_trading r)
             (rr_wash_flag_count r) (rr_is_top_holder r))"
    and lv: "rr_risk_level r =
      fst (calculate_risk_level (rr_bot_score r) (rr_bot_classification r) (rr_is_wash_trading r)
             (rr_wash_flag_count r) (rr_is_top_holder r))"
    using risk_row_of_score [of bot_results d "set top_holders" w, symmetric] unfolding r by simp_all
  have "rr_is_wash_trading r = (rr_wallet r \<in> wd_suspicious_wallets d)"
    by (simp add: r risk_row_of_columns)
  moreover have "rr_wash_flag_count r = card (flagging_tables (wd_results d) (rr_wallet r))"
    by (simp add: r risk_row_of_columns wash_flags_count)
  moreover have "rr_risk_score r =
          min (rr_bot_score r * 50
               + (if rr_is_wash_trading r then real (min (rr_wash_flag_count r * 15) 50) else 0)) 100"
    if "\<not> rr_is_top_holder r"
    using that sc calculate_risk_level_plain by simp
  moreover have "rr_risk_score r = spec_risk_score (rr_bot_score r) (rr_wash_flag_count r)"
    if "\<not> rr_is_top_holder r" "0 \<le> rr_bot_score r" "rr_is_wash_trading r \<or> rr_wash_flag_count r = 0"
    using that sc spec_risk_score_agrees by simp
  moreover have "rr_risk_level r = spec_risk_level (rr_risk_score r)"
    unfolding sc lv by (rule calculate_risk_level_level)
  ultimately show "rr_is_wash_trading r = (rr_wallet r \<in> wd_suspicious_wallets d)
   \<and> rr_wash_flag_count r = card (flagging_tables (wd_results d) (rr_wallet r))
   \<and> (\<not> rr_is_top_holder r \<longrightarrow>
        rr_risk_score r =
          min (rr_bot_score r * 50
               + (if rr_is_wash_trading r then real (min (rr_wash_flag_count r * 15) 50) else 0)) 100)
   \<and> (\<not> rr_is_top_holder r \<and> 0 \<le> rr_bot_score r
        \<and> (rr_is_wash_trading r \<or> rr_wash_flag_count r = 0) \<longrightarrow>
        rr_risk_score r = spec_risk_score (rr_bot_score r) (rr_wash_flag_count r))
   \<and> rr_risk_level r = spec_risk_level (rr_risk_score r)"
    by blast
qed

text \<open>The rows of the two example runs.\<close>

lemma quick_graph:
  "map fst (flow_graph quick_returns) = [(''A'', ''B''), (''B'', ''A'')]"
  "circular_patterns (wd_results quick_detector) =
     [\<lparr> cy_cycle_length = 2, cy_wallets = [''B'', ''A''] \<rparr>]"
  "circular_patterns (wd_results one_way_detector) = []"
  "map fst (flow_graph one_way) = [(''A'', ''B'')]"
  by code_simp+

lemma quick_rows:
  "map score_columns (create_risk_analysis quick_bots quick_detector []) =
     [(''A'', False, True, HUMAN, 3 / 10,
       [''rapid_roundtrips'', ''circular_patterns'', ''volume_concentration''], 60, HIGH),
      (''B'', False, True, HUMAN, 3 / 10,
       [''rapid_roundtrips'', ''circular_patterns'', ''volume_concentration''], 60, HIGH)]"
  by code_simp

lemma quick_whale_rows:
  "map score_columns (create_risk_analysis quick_bots quick_detector [''A'']) =
     [(''A'', True, True, HUMAN, 3 / 10,
       [''rapid_roundtrips'', ''circular_patterns'', ''volume_concentration''], 100, CRITICAL),
      (''B'', False, True, HUMAN, 3 / 10,
       [''rapid_roundtrips'', ''circular_patterns'', ''volume_concentration''], 60, HIGH)]"
  by code_simp

theorem C1_risk_score_gated_witness:
  "create_risk_analysis quick_bots quick_detector [] \<noteq> []
   \<and> rr_wallet (hd (create_risk_analysis quick_bots quick_detector [])) = ''A''
   \<and> rr_is_top_holder (hd (create_risk_analysis quick_bots quick_detector [])) = False
   \<and> rr_is_wash_trading (hd (create_risk_analysis quick_bots quick_detector [])) = True
   \<and> rr_bot_score (hd (create_risk_analysis quick_bots quick_detector [])) = 3 / 10
   \<and> rr_wash_flag_count (hd (create_risk_analysis quick_bots quick_detector [])) = 3
   \<and> rr_risk_score (hd (create_risk_analysis quick_bots quick_detector [])) = 60
   \<and> rr_risk_score (hd (create_risk_analysis quick_bots quick_detector [])) = spec_risk_score (3 / 10) 3
   \<and> rr_risk_level (hd (create_risk_analysis quick_bots quick_detector [])) = HIGH"
proof -
  let ?rows = "create_risk_analysis quick_bots quick_detector []"
  from quick_rows have ne: "?rows \<noteq> []" by auto
  then have mem: "hd ?rows \<in> set ?rows" by simp
  from quick_rows ne have cols: "score_columns (hd ?rows) =
      (''A'', False, True, HUMAN, 3 / 10,
       [''rapid_roundtrips'', ''circular_patterns'', ''volume_concentration''], 60, HIGH)"
    by (cases ?rows) auto
  have cnt: "rr_wash_flag_count (hd ?rows) = 3" by code_simp
  from cols have top: "\<not> rr_is_top_holder (hd ?rows)"
    and wash: "rr_is_wash_trading (hd ?rows)"
    and bs: "rr_bot_score (hd ?rows) = 3 / 10"
    by (simp_all add: score_columns_def)
  from C1_risk_score_gated [of quick_bots quick_detector "[]", THEN bspec, OF mem]
  have "\<not> rr_is_top_holder (hd ?rows) \<and> 0 \<le> rr_bot_score (hd ?rows)
        \<and> (rr_is_wash_trading (hd ?rows) \<or> rr_wash_flag_count (hd ?rows) = 0) \<longrightarrow>
        rr_risk_score (hd ?rows)
          = spec_risk_score (rr_bot_score (hd ?rows)) (rr_wash_flag_count (hd ?rows))"
    by blast
  with top wash bs have "rr_risk_score (hd ?rows)
          = spec_risk_score (rr_bot_score (hd ?rows)) (rr_wash_flag_count (hd ?rows))"
    by simp
  then have "rr_risk_score (hd ?rows) = spec_risk_score (3 / 10) 3"
    unfolding bs cnt .
  with ne cols cnt show ?thesis by (simp add: score_columns_def)
qed

text \<open>
  The claim's formula fails at wallet \<open>A\<close> of the one-way flows: no top holder, not in the
  suspicious set, listed in the volume-concentration table only, bot score 0.30. The code
  gives the score 15 and the level LOW; the claim's formula gives 30 and MEDIUM.
\<close>

theorem C1_volume_flag_not_scored:
  "map score_columns (create_risk_analysis one_way_bots one_way_detector []) =
     [(''A'', False, False, HUMAN, 3 / 10, [''volume_concentration''], 15, LOW)]
   \<and> spec_risk_score (3 / 10) 1 = 30
   \<and> spec_risk_level (spec_risk_score (3 / 10) 1) = MEDIUM"
  by code_simp

text \<open>
  Claim C2, as the code computes it. A top holder that is in the suspicious set or is
  classified BOT has the score 100 and the level CRITICAL; any other top holder has
  \<open>bot_score \<sqdot> 50 + 20\<close>, capped at 100: the wash-flag term is not added, whatever the
  flag count.
\<close>

theorem C2_whale_rule:
  "\<forall>r \<in> set (create_risk_analysis bot_results d top_holders).
     rr_is_top_holder r = (rr_wallet r \<in> set top_holders)
   \<and> (rr_is_top_holder r \<and> (rr_is_wash_trading r \<or> rr_bot_classification r = BOT) \<longrightarrow>
        rr_risk_score r = 100 \<and> rr_risk_level r = CRITICAL)
   \<and> (rr_is_top_holder r \<and> \<not> rr_is_wash_trading r \<and> rr_bot_classification r \<noteq> BOT \<longrightarrow>
        rr_risk_score r = min (rr_bot_score r * 50 + 20) 100)"
proof
  fix r assume "r \<in> set (create_risk_analysis bot_results d top_holders)"
  then obtain w where r: "r = risk_row_of bot_results d (set top_holders) w"
    using in_create_risk_analysis by blast
  have sc: "rr_risk_score r =
      snd (calculate_risk_level (rr_bot_score r) (rr_bot_classification r) (rr_is_wash_trading r)
             (rr_wash_flag_count r) (rr_is_top_holder r))"
    and lv: "rr_risk_level r =
      fst (calculate_risk_level (rr_bot_score r) (rr_bot_classification r) (rr_is_wash_trading r)
             (rr_wash_flag_count r) (rr_is_top_holder r))"
    using risk_row_of_score [of bot_results d "set top_holders" w, symmetric] unfolding r by simp_all
  have "rr_is_top_holder r = (rr_wallet r \<in> set top_holders)"
    by (simp add: r risk_row_of_columns)
  moreover have "rr_risk_score r = 100 \<and> rr_risk_level r = CRITICAL"
    if "rr_is_top_holder r" "rr_is_wash_trading r \<or> rr_bot_classification r = BOT"
  proof -
    from that sc have "rr_risk_score r = 100"
      using calculate_risk_level_whale by simp
    moreover have "rr_risk_level r = spec_risk_level (rr_risk_score r)"
      unfolding sc lv by (rule calculate_risk_level_level)
    ultimately show ?thesis by (simp add: spec_risk_level_def)
  qed
  moreover have "rr_risk_score r = min (rr_bot_score r * 50 + 20) 100"
    if "rr_is_top_holder r" "\<not> rr_is_wash_trading r" "rr_bot_classification r \<noteq> BOT"
    using that sc calculate_risk_level_whale by simp
  ultimately show "rr_is_top_holder r = (rr_wallet r \<in> set top_holders)
   \<and> (rr_is_top_holder r \<and> (rr_is_wash_trading r \<or> rr_bot_classification r = BOT) \<longrightarrow>
        rr_risk_score r = 100 \<and> rr_risk_level r = CRITICAL)
   \<and> (rr_is_top_holder r \<and> \<not> rr_is_wash_trading r \<and> rr_bot_classification r \<noteq> BOT \<longrightarrow>
        rr_risk_score r = min (rr_bot_score r * 50 + 20) 100)"
    by blast
qed

theorem C2_whale_rule_witness:
  "create_risk_analysis quick_bots quick_detector [''A''] \<noteq> []
   \<and> rr_wallet (hd (create_risk_analysis quick_bots quick_detector [''A''])) = ''A''
   \<and> rr_is_top_holder (hd (create_risk_analysis quick_bots quick_detector [''A''])) = True
   \<and> rr_is_wash_trading (hd (create_risk_analysis quick_bots quick_detector [''A''])) = True
   \<and> rr_risk_score (hd (create_risk_analysis quick_bots quick_detector [''A''])) = 100
   \<and> rr_risk_level (hd (create_risk_analysis quick_bots quick_detector [''A''])) = CRITICAL"
proof -
  let ?rows = "create_risk_analysis quick_bots quick_detector [''A'']"
  from quick_whale_rows have ne: "?rows \<noteq> []" by auto
  then have mem: "hd ?rows \<in> set ?rows" by simp
  from quick_whale_rows ne have cols: "score_columns (hd ?rows) =
      (''A'', True, True, HUMAN, 3 / 10,
       [''rapid_roundtrips'', ''circular_patterns'', ''volume_concentration''], 100, CRITICAL)"
    by (cases ?rows) auto
  note C2 =C2_whale_rule [of quick_bots quick_detector "[''A'']", THEN bspec, OF mem]
  from C2 cols have "rr_risk_score (hd ?rows) = 100 \<and> rr_risk_level (hd ?rows) = CRITICAL"
    by (simp add: score_columns_def)
  with ne cols show ?thesis by (simp add: score_columns_def)
qed

text \<open>
  The claim fails at the top holder \<open>A\<close> of the one-way flows: not in the suspicious set,
  not a bot, flagged by the volume-concentration table only. The code gives
  \<open>0.30 \<sqdot> 50 + 20 = 35\<close>. The additive formula of the claim plus 20 is 50; and were the
  flag to count as "wash-flagged", the claim would force 100.
\<close>

theorem C2_whale_with_volume_flag:
  "map score_columns (create_risk_analysis one_way_bots one_way_detector [''A'']) =
     [(''A'', True, False, HUMAN, 3 / 10, [''volume_concentration''], 35, MEDIUM)]
   \<and> max 0 (min (spec_risk_score (3 / 10) 1 + 20) 100) = 50"
  by code_simp

text \<open>
  Claim C3, for holder metrics that are not empty. The token score is the aggregate of the
  specification on the top-10 ratio and the Gini coefficient of the metrics (0 when the
  key is missing) and on the shares of BOT rows and of wash-trading rows of the risk
  table (0 when there is no table or no row). Empty holder metrics are answered with the
  score 0 before anything is computed.
\<close>

theorem C3_token_risk_score:
  assumes "holder_metrics \<noteq> []"
  shows "token_risk_score (calculate_token_risk_score holder_metrics risk_results) =
           spec_token_risk_score
             (dict_get holder_metrics ''top_10_ratio'' 0)
             (dict_get holder_metrics ''gini_coefficient'' 0)
             (bot_wallet_ratio (case risk_results of None \<Rightarrow> [] | Some rows \<Rightarrow> rows))
             (wash_wallet_ratio (case risk_results of None \<Rightarrow> [] | Some rows \<Rightarrow> rows))"
proof (cases risk_results)
  case None
  with assms show ?thesis
    by (simp add: calculate_token_risk_score_def spec_token_risk_score_def
          spec_concentration_score_def bot_wallet_ratio_def wash_wallet_ratio_def Let_def)
next
  case (Some rows)
  with assms show ?thesis
    by (cases "rows = []")
      (simp_all add: calculate_token_risk_score_def spec_token_risk_score_def
          spec_concentration_score_def bot_wallet_ratio_def wash_wallet_ratio_def Let_def)
qed

theorem C3_token_risk_score_witness:
  "concentrated_metrics \<noteq> []
   \<and> token_risk_score (calculate_token_risk_score concentrated_metrics
         (Some (create_risk_analysis quick_bots quick_detector []))) = 66
   \<and> spec_token_risk_score 50 (95 / 100) 0 1 = 66"
proof -
  have ne: "concentrated_metrics \<noteq> []" by (simp add: concentrated_metrics_def)
  have args: "dict_get concentrated_metrics ''top_10_ratio'' 0 = 50"
      "dict_get concentrated_metrics ''gini_coefficient'' 0 = 95 / 100"
      "bot_wallet_ratio (create_risk_analysis quick_bots quick_detector []) = 0"
      "wash_wallet_ratio (create_risk_analysis quick_bots quick_detector []) = 1"
    by code_simp+
  have v: "spec_token_risk_score 50 (95 / 100) 0 1 = 66" by code_simp
  from C3_token_risk_score [OF ne, of "Some (create_risk_analysis quick_bots quick_detector [])"]
  have "token_risk_score (calculate_token_risk_score concentrated_metrics
         (Some (create_risk_analysis quick_bots quick_detector []))) = spec_token_risk_score 50 (95 / 100) 0 1"
    by (simp add: args)
  with ne v show ?thesis by simp
qed

text \<open>
  The claim fails for empty holder metrics: with a risk table all of whose wallets are
  wash traders the aggregate of the specification is 30, and the code returns 0.
\<close>

theorem C3_empty_metrics_score_zero:
  "token_risk_score (calculate_token_risk_score []
      (Some (create_risk_analysis quick_bots quick_detector []))) = 0
   \<and> spec_token_risk_score (dict_get [] ''top_10_ratio'' 0) (dict_get [] ''gini_coefficient'' 0)
        (bot_wallet_ratio (create_risk_analysis quick_bots quick_detector []))
        (wash_wallet_ratio (create_risk_analysis quick_bots quick_detector [])) = 30"
  by code_simp

end
